theory Spec2Isabelle
  imports Complex_Main
begin

section \<open>JavaScript values and helpers\<close>

text \<open>
  JavaScript numbers are modelled as reals: arithmetic is exact, the rounding of doubles is
  not represented, and every number is finite. A value that JavaScript would hold as
  \<open>undefined\<close>, \<open>null\<close> or \<open>NaN\<close> is an explicit \<open>None\<close> of an option type wherever the
  source can produce one. A number is falsy exactly when it is \<open>0\<close>; a string is falsy
  exactly when it is empty. Strings are lists of 8-bit characters, which covers the ASCII
  element notation of formulas.
\<close>

type_synonym number = real

text \<open>
  \<open>x || d\<close> on a value that is a number or \<open>undefined\<close>: the default is taken when the
  value is missing and also when it is the falsy number \<open>0\<close>.
\<close>

definition or_default :: "number option \<Rightarrow> number \<Rightarrow> number" where
  "or_default x d = (case x of None \<Rightarrow> d | Some v \<Rightarrow> if v = 0 then d else v)"

text \<open>
  \<open>a / b\<close>: on a zero divisor JavaScript yields \<open>NaN\<close> or an infinity, which is \<open>None\<close>
  here.
\<close>

definition js_div :: "number \<Rightarrow> number \<Rightarrow> number option" where
  "js_div a b = (if b = 0 then None else Some (a / b))"

text \<open>
  \<open>prev.slice(0, n)\<close> for an integral \<open>n\<close>: a negative end counts from the end of the
  array and is clamped at 0; an end beyond the length is clamped to the length.
\<close>

definition slice0 :: "int \<Rightarrow> 'a list \<Rightarrow> 'a list" where
  "slice0 n xs =
     (if n < 0 then take (nat (max (int (length xs) + n) 0)) xs else take (nat n) xs)"

text \<open>\<open>parts[i]\<close>: reading an array beyond its end gives \<open>undefined\<close>.\<close>

definition nth_opt :: "'a list \<Rightarrow> nat \<Rightarrow> 'a option" where
  "nth_opt xs i = (if i < length xs then Some (xs ! i) else None)"

text \<open>
  \<open>s.split(d)\<close> for a one-character separator: never the empty array; an empty field
  between, before or after separators is an empty string.
\<close>

fun split_on :: "char \<Rightarrow> string \<Rightarrow> string list" where
  "split_on d [] = [[]]"
| "split_on d (c # cs) =
     (if c = d then [] # split_on d cs
      else (case split_on d cs of [] \<Rightarrow> [[c]] | w # ws \<Rightarrow> (c # w) # ws))"

text \<open>\<open>s.trim()\<close>, on the ASCII white space and line terminators (tab to carriage return, space).\<close>

definition is_ws :: "char \<Rightarrow> bool" where
  "is_ws c \<longleftrightarrow> (9 \<le> (of_char c :: nat) \<and> (of_char c :: nat) \<le> 13) \<or> (of_char c :: nat) = 32"

definition trim :: "string \<Rightarrow> string" where
  "trim s = rev (dropWhile is_ws (rev (dropWhile is_ws s)))"

definition is_digit :: "char \<Rightarrow> bool" where
  "is_digit c \<longleftrightarrow> 48 \<le> (of_char c :: nat) \<and> (of_char c :: nat) \<le> 57"

definition is_upper :: "char \<Rightarrow> bool" where
  "is_upper c \<longleftrightarrow> 65 \<le> (of_char c :: nat) \<and> (of_char c :: nat) \<le> 90"

definition is_lower :: "char \<Rightarrow> bool" where
  "is_lower c \<longleftrightarrow> 97 \<le> (of_char c :: nat) \<and> (of_char c :: nat) \<le> 122"

definition digits_value :: "string \<Rightarrow> nat" where
  "digits_value ds = foldl (\<lambda>acc c. 10 * acc + (of_char c - 48)) 0 ds"

text \<open>
  The reading of \<open>Number(s)\<close> on plain decimal literals: surrounding white space is
  dropped, the blank string is \<open>0\<close>, an optional sign is followed by digits with an optional
  fraction, and a string that is no numeric literal is \<open>NaN\<close> (\<open>None\<close>). Exponents,
  radix prefixes and \<open>Infinity\<close> are not covered by this reading; the loader below takes
  the conversion as a parameter, and this one serves for concrete tables.
\<close>

definition unsignedDecimal :: "string \<Rightarrow> number option" where
  "unsignedDecimal u =
     (let ip = takeWhile is_digit u; r = dropWhile is_digit u
      in (case r of
            [] \<Rightarrow> if ip = [] then None else Some (real (digits_value ip))
          | c # fr \<Rightarrow>
              if c = CHR ''.'' \<and> list_all is_digit fr \<and> (ip \<noteq> [] \<or> fr \<noteq> [])
              then Some (real (digits_value ip) + real (digits_value fr) / 10 ^ length fr)
              else None))"

definition decimalNumber :: "string \<Rightarrow> number option" where
  "decimalNumber s =
     (case trim s of
        [] \<Rightarrow> Some 0
      | c # u \<Rightarrow>
          if c = CHR ''-'' then map_option uminus (unsignedDecimal u)
          else if c = CHR ''+'' then unsignedDecimal u
          else unsignedDecimal (c # u))"

text \<open>
  A JavaScript \<open>Map\<close> iterates in the order of first insertion, and \<open>set\<close> replaces the
  value of a key already present: an association list updated in place.
\<close>

definition js_map_set :: "'k \<Rightarrow> 'v \<Rightarrow> ('k \<times> 'v) list \<Rightarrow> ('k \<times> 'v) list" where
  "js_map_set k v m =
     (if k \<in> fst ` set m then map (\<lambda>(k', v'). if k' = k then (k', v) else (k', v')) m
      else m @ [(k, v)])"

text \<open>
  \<open>ToInt32\<close>, the conversion that \<open>hash << 5\<close> and \<open>hash & hash\<close> apply, and the remainder
  operator \<open>%\<close> on integers, whose sign is the dividend's.
\<close>

definition toInt32 :: "int \<Rightarrow> int" where
  "toInt32 x = (x + 2 ^ 31) mod 2 ^ 32 - 2 ^ 31"

definition js_rem :: "int \<Rightarrow> int \<Rightarrow> int" where
  "js_rem a b = sgn a * (\<bar>a\<bar> mod \<bar>b\<bar>)"

text \<open>The decimal text of a natural number, as a template literal prints it.\<close>

definition digit_char :: "nat \<Rightarrow> char" where
  "digit_char d = ''0123456789'' ! d"

fun decimal :: "nat \<Rightarrow> string" where
  "decimal n = (if n < 10 then [digit_char n] else decimal (n div 10) @ [digit_char (n mod 10)])"

declare decimal.simps [simp del]

section \<open>Data model (types of BatchContext.tsx)\<close>

record AtomicMass =
  Symbol :: "string option"
  Atomic_Mass :: "number option"
  Element :: "string option"
  Atomic_Number :: "number option"

record ComponentItem =
  formula :: string
  matrix :: number
  mw :: number

record ProductItem =
  prod_formula :: string
  prod_mw :: number
  gf :: "number option"
  precursorFormula :: string
  precursorMoles :: number
  productMoles :: number

record BatchState =
  atomics :: "AtomicMass list"
  components :: "ComponentItem list"
  products :: "ProductItem list"
  numComponents :: int
  numProducts :: int

section \<open>Loading the atomic-mass table (lines 101-117)\<close>

text \<open>
  \<open>Number(parts[i])\<close>: \<open>Number(undefined)\<close> is \<open>NaN\<close>; on a string it is the conversion
  \<open>num\<close>, a parameter of the loader.
\<close>

definition toNumber :: "(string \<Rightarrow> number option) \<Rightarrow> string option \<Rightarrow> number option" where
  "toNumber num p = (case p of None \<Rightarrow> None | Some s \<Rightarrow> num s)"

definition parseRow :: "(string \<Rightarrow> number option) \<Rightarrow> string \<Rightarrow> AtomicMass" where
  "parseRow num l =
     (let parts = split_on CHR '','' l
      in \<lparr>Symbol = nth_opt parts 2,
          Atomic_Mass = toNumber num (nth_opt parts 3),
          Element = nth_opt parts 1,
          Atomic_Number = toNumber num (nth_opt parts 0)\<rparr>)"

definition csvLines :: "string \<Rightarrow> string list" where
  "csvLines txt = drop 1 (split_on (CHR 0x0A) (trim txt))"

definition loadAtomics :: "(string \<Rightarrow> number option) \<Rightarrow> string \<Rightarrow> AtomicMass list" where
  "loadAtomics num txt = map (parseRow num) (csvLines txt)"

section \<open>The calculation engine (lib/chemistry, lib/gfUtils: not part of the sources at hand)\<close>

subsection \<open>FormulaParser\<close>

text \<open>
  Modelled from the spec: the formula parser of \<open>lib/chemistry\<close> is missing; this is
  section 4.1. A formula is a sequence of groups: an element symbol (one upper-case letter,
  then lower-case letters) with an optional numeric literal, or a parenthesised
  sub-formula with an optional numeric literal; an absent literal is 1. The parser keeps
  the current scope and the stack of enclosing scopes. The result is an ordered mapping
  from symbols to counts.
\<close>

datatype ParseError = UnmatchedClose | UnclosedOpen | Unrecognized char | MalformedNumber

type_synonym ElementCounts = "(string \<times> number) list"

fun add_count :: "string \<Rightarrow> number \<Rightarrow> ElementCounts \<Rightarrow> ElementCounts" where
  "add_count s n [] = [(s, n)]"
| "add_count s n ((k, v) # m) = (if k = s then (k, v + n) # m else (k, v) # add_count s n m)"

text \<open>
  On \<open>)\<close>: every entry of the popped scope is multiplied by the literal and added into
  the parent scope.
\<close>

definition merge_scaled :: "number \<Rightarrow> ElementCounts \<Rightarrow> ElementCounts \<Rightarrow> ElementCounts" where
  "merge_scaled k popped parent = fold (\<lambda>(s, n) m. add_count s (n * k) m) popped parent"

text \<open>
  The numeric literal at the head of the input, with the rest of the input: an integer or
  a decimal; 1 when there is no digit; \<open>None\<close> when a decimal point is not followed by a
  digit.
\<close>

definition read_number :: "string \<Rightarrow> (number \<times> string) option" where
  "read_number cs =
     (let ds = takeWhile is_digit cs; rest = dropWhile is_digit cs
      in if ds = [] then Some (1, cs)
         else (case rest of
                 [] \<Rightarrow> Some (real (digits_value ds), rest)
               | c # r2 \<Rightarrow>
                   if c = CHR ''.'' then
                     (let fr = takeWhile is_digit r2
                      in if fr = [] then None
                         else Some (real (digits_value ds) + real (digits_value fr) / 10 ^ length fr,
                                    dropWhile is_digit r2))
                   else Some (real (digits_value ds), rest)))"

lemma read_number_rest:
  "read_number cs = Some (k, cs') \<Longrightarrow>
     cs' = cs \<or> cs' = dropWhile is_digit cs
     \<or> (\<exists>c r2. dropWhile is_digit cs = c # r2 \<and> cs' = dropWhile is_digit r2)"
  by (auto simp: read_number_def Let_def split: if_splits list.splits)

lemma read_number_length: "read_number cs = Some (k, cs') \<Longrightarrow> length cs' \<le> length cs"
proof -
  assume "read_number cs = Some (k, cs')"
  from read_number_rest [OF this] show ?thesis
  proof (elim disjE exE conjE)
    assume "cs' = cs"
    then show ?thesis by simp
  next
    assume "cs' = dropWhile is_digit cs"
    then show ?thesis by (simp add: length_dropWhile_le)
  next
    fix c r2
    assume r: "dropWhile is_digit cs = c # r2" and c: "cs' = dropWhile is_digit r2"
    have "length cs' \<le> length r2" unfolding c by (rule length_dropWhile_le)
    also have "\<dots> \<le> length (dropWhile is_digit cs)" by (simp add: r)
    also have "\<dots> \<le> length cs" by (rule length_dropWhile_le)
    finally show ?thesis .
  qed
qed

function parse_loop ::
  "ElementCounts \<Rightarrow> ElementCounts list \<Rightarrow> string \<Rightarrow> ParseError + ElementCounts" where
  "parse_loop cur parents [] = (if parents = [] then Inr cur else Inl UnclosedOpen)"
| "parse_loop cur parents (c # cs) =
     (if c = CHR ''('' then parse_loop [] (cur # parents) cs
      else if c = CHR '')'' then
        (case parents of
           [] \<Rightarrow> Inl UnmatchedClose
         | parent # rest \<Rightarrow>
             (case read_number cs of
                None \<Rightarrow> Inl MalformedNumber
              | Some (k, cs') \<Rightarrow> parse_loop (merge_scaled k cur parent) rest cs'))
      else if is_upper c then
        (case read_number (dropWhile is_lower cs) of
           None \<Rightarrow> Inl MalformedNumber
         | Some (k, cs') \<Rightarrow> parse_loop (add_count (c # takeWhile is_lower cs) k cur) parents cs')
      else Inl (Unrecognized c))"
  by pat_completeness auto
termination
proof (relation "measure (\<lambda>(cur, parents, cs). length cs)")
  show "wf (measure (\<lambda>(cur, parents, cs). length cs))" by simp
next
  fix cur :: ElementCounts and parents :: "ElementCounts list" and c :: char and cs :: string
  show "(([], cur # parents, cs), cur, parents, c # cs) \<in> measure (\<lambda>(cur, parents, cs). length cs)"
    by simp
next
  fix cur :: ElementCounts and parents :: "ElementCounts list" and c :: char and cs :: string
    and x21 x22 x2 x1 y
  assume "read_number cs = Some x2" "(x1, y) = x2"
  then have "length y \<le> length cs" using read_number_length [of cs x1 y] by simp
  then show "((merge_scaled x1 cur x21, x22, y), cur, parents, c # cs)
      \<in> measure (\<lambda>(cur, parents, cs). length cs)"
    by simp
next
  fix cur :: ElementCounts and parents :: "ElementCounts list" and c :: char and cs :: string
    and x2 x1 y
  assume "read_number (dropWhile is_lower cs) = Some x2" "(x1, y) = x2"
  then have "length y \<le> length (dropWhile is_lower cs)"
    using read_number_length [of "dropWhile is_lower cs" x1 y] by simp
  also have "\<dots> \<le> length cs" by (rule length_dropWhile_le)
  finally show "((add_count (c # takeWhile is_lower cs) x1 cur, parents, y), cur, parents, c # cs)
      \<in> measure (\<lambda>(cur, parents, cs). length cs)"
    by simp
qed

definition parse :: "string \<Rightarrow> ParseError + ElementCounts" where
  "parse f = parse_loop [] [] f"

text \<open>The count a mapping holds for a symbol: the sum of its entries for that symbol.\<close>

definition count_of :: "ElementCounts \<Rightarrow> string \<Rightarrow> number" where
  "count_of m s = sum_list (map snd (filter (\<lambda>e. fst e = s) m))"

subsection \<open>MolecularWeightCalculator\<close>

text \<open>
  Modelled from the spec: \<open>molecularWeight\<close> of \<open>lib/chemistry\<close> is missing; this is
  section 4.2. The weight is the sum of \<open>count * atomicMass symbol\<close> over the parsed
  formula; it is undefined if parsing fails or a symbol is absent from the table. A symbol
  is present when some entry of the table carries it with a mass.
\<close>

definition atomicMass :: "AtomicMass list \<Rightarrow> string \<Rightarrow> number option" where
  "atomicMass table s =
     (case find (\<lambda>a. Symbol a = Some s) table of None \<Rightarrow> None | Some a \<Rightarrow> Atomic_Mass a)"

fun weigh_counts :: "AtomicMass list \<Rightarrow> ElementCounts \<Rightarrow> number option" where
  "weigh_counts table [] = Some 0"
| "weigh_counts table ((s, n) # m) =
     (case atomicMass table s of
        None \<Rightarrow> None
      | Some a \<Rightarrow> (case weigh_counts table m of None \<Rightarrow> None | Some w \<Rightarrow> Some (n * a + w)))"

definition molecularWeight :: "string \<Rightarrow> AtomicMass list \<Rightarrow> number option" where
  "molecularWeight f table =
     (case parse f of Inl e \<Rightarrow> None | Inr counts \<Rightarrow> weigh_counts table counts)"

subsection \<open>GravimetricFactorCalculator\<close>

text \<open>
  Modelled from the spec: \<open>calculateGF\<close> of \<open>lib/chemistry\<close> is missing; this is
  section 4.3, \<open>GF = (productMoles * MW product) / (precursorMoles * MW precursor)\<close>,
  undefined when either molecular weight is undefined or \<open>precursorMoles \<le> 0\<close>.
\<close>

definition calculateGF ::
  "string \<Rightarrow> string \<Rightarrow> number \<Rightarrow> number \<Rightarrow> AtomicMass list \<Rightarrow> number option" where
  "calculateGF precursor product precMoles prodMoles table =
     (case molecularWeight precursor table of
        None \<Rightarrow> None
      | Some mwPrecursor \<Rightarrow>
          (case molecularWeight product table of
             None \<Rightarrow> None
           | Some mwProduct \<Rightarrow>
               if precMoles \<le> 0 then None
               else js_div (prodMoles * mwProduct) (precMoles * mwPrecursor)))"

subsection \<open>BatchWeightNormalizer\<close>

text \<open>
  Modelled from the spec: the normalizer (\<open>calculateTotalBatchWeight\<close>,
  \<open>calculateAdjustedBatchWeights\<close> of \<open>lib/chemistry\<close>) is missing; this is section 4.4.
  The normalizer does not divide when the total is 0.
\<close>

record NormInput =
  matrixPercent :: number
  weight :: number
  normMoleRatio :: number

definition raw :: "NormInput \<Rightarrow> number" where
  "raw c = matrixPercent c * weight c * normMoleRatio c / 1000"

definition normalize :: "NormInput list \<Rightarrow> number \<Rightarrow> number option list" where
  "normalize cs desiredTotalMass =
     (let raws = map raw cs; tot = sum_list raws
      in map (\<lambda>r. if tot = 0 then Some 0 else js_div (desiredTotalMass * r) tot) raws)"

section \<open>BatchProvider (BatchContext.tsx)\<close>

subsection \<open>Initial state (lines 58-95)\<close>

definition initialComponents :: "ComponentItem list" where
  "initialComponents =
     [\<lparr>formula = ''CaO'', matrix = 30, mw = 0\<rparr>,
      \<lparr>formula = ''La2O3'', matrix = 10, mw = 0\<rparr>,
      \<lparr>formula = ''H3BO3'', matrix = 60, mw = 0\<rparr>]"

definition initialProducts :: "ProductItem list" where
  "initialProducts =
     [\<lparr>prod_formula = ''B2O3'', prod_mw = 0, gf = None,
       precursorFormula = ''H3BO3'', precursorMoles = 2, productMoles = 1\<rparr>,
      \<lparr>prod_formula = ''La2O3'', prod_mw = 0, gf = None,
       precursorFormula = ''La2O3'', precursorMoles = 1, productMoles = 1\<rparr>]"

definition initialState :: BatchState where
  "initialState =
     \<lparr>atomics = [], components = initialComponents, products = initialProducts,
      numComponents = 3, numProducts = 2\<rparr>"

subsection \<open>Effect on atomics: molecular weights of the rows (lines 119-135)\<close>

text \<open>\<open>atomics.length ? molecularWeight(f, atomics) || 0 : 0\<close>\<close>

definition rowWeight :: "AtomicMass list \<Rightarrow> string \<Rightarrow> number" where
  "rowWeight table f = (if table \<noteq> [] then or_default (molecularWeight f table) 0 else 0)"

definition recalcWeights :: "BatchState \<Rightarrow> BatchState" where
  "recalcWeights st =
     st\<lparr>components := map (\<lambda>c. c\<lparr>mw := rowWeight (atomics st) (formula c)\<rparr>) (components st),
        products := map (\<lambda>p. p\<lparr>prod_mw := rowWeight (atomics st) (prod_formula p)\<rparr>) (products st)\<rparr>"

definition setAtomics :: "AtomicMass list \<Rightarrow> BatchState \<Rightarrow> BatchState" where
  "setAtomics table st = recalcWeights (st\<lparr>atomics := table\<rparr>)"

subsection \<open>Effect on numComponents (lines 137-153)\<close>

definition emptyComponent :: ComponentItem where
  "emptyComponent = \<lparr>formula = [], matrix = 0, mw = 0\<rparr>"

definition resizeComponents :: "int \<Rightarrow> ComponentItem list \<Rightarrow> ComponentItem list" where
  "resizeComponents n prev =
     (if n > int (length prev)
      then prev @ replicate (nat (n - int (length prev))) emptyComponent
      else slice0 n prev)"

text \<open>
  \<open>setNumComponents n\<close> followed by the effect that depends on \<open>numComponents\<close>: the
  components array is resized and \<open>numProducts\<close> is set to the same number.
\<close>

definition setNumComponents :: "int \<Rightarrow> BatchState \<Rightarrow> BatchState" where
  "setNumComponents n st =
     st\<lparr>numComponents := n,
        components := resizeComponents n (components st),
        numProducts := n\<rparr>"

subsection \<open>Handlers (lines 201-285)\<close>

text \<open>
  The forms call the handlers with the index of an existing row; an index beyond the rows,
  where the assignment would extend the array with a partial object, is outside this model.
  The value carries its field. A formula change recomputes the row's weight with \<open>molecularWeight(value, atomics) || 0\<close>
  and copies the formula into the precursor formula of the product with the same index.
\<close>

datatype ComponentField = Formula string | Matrix number

definition handleComponentChange :: "nat \<Rightarrow> ComponentField \<Rightarrow> BatchState \<Rightarrow> BatchState" where
  "handleComponentChange i fld st =
     (case fld of
        Formula v \<Rightarrow>
          st\<lparr>components := (components st)
                [i := (components st ! i)\<lparr>formula := v,
                       mw := or_default (molecularWeight v (atomics st)) 0\<rparr>],
             products :=
               (if i < length (products st)
                then (products st)[i := (products st ! i)\<lparr>precursorFormula := v\<rparr>]
                else products st)\<rparr>
      | Matrix v \<Rightarrow>
          st\<lparr>components := (components st)[i := (components st ! i)\<lparr>matrix := v\<rparr>]\<rparr>)"

datatype ProductField =
  ProdFormula string | PrecursorFormula string | PrecursorMoles number | ProductMoles number

definition updateProductField :: "AtomicMass list \<Rightarrow> ProductField \<Rightarrow> ProductItem \<Rightarrow> ProductItem" where
  "updateProductField table fld p =
     (case fld of
        ProdFormula v \<Rightarrow> p\<lparr>prod_formula := v, prod_mw := or_default (molecularWeight v table) 0\<rparr>
      | PrecursorFormula v \<Rightarrow> p\<lparr>precursorFormula := v\<rparr>
      | PrecursorMoles v \<Rightarrow> p\<lparr>precursorMoles := v\<rparr>
      | ProductMoles v \<Rightarrow> p\<lparr>productMoles := v\<rparr>)"

definition refreshGF :: "AtomicMass list \<Rightarrow> ProductItem \<Rightarrow> ProductItem" where
  "refreshGF table p =
     (if precursorFormula p \<noteq> [] \<and> prod_formula p \<noteq> []
      then p\<lparr>gf := calculateGF (precursorFormula p) (prod_formula p)
                     (precursorMoles p) (productMoles p) table\<rparr>
      else p)"

definition handleProductChange :: "nat \<Rightarrow> ProductField \<Rightarrow> BatchState \<Rightarrow> BatchState" where
  "handleProductChange i fld st =
     st\<lparr>products := (products st)
           [i := refreshGF (atomics st) (updateProductField (atomics st) fld (products st ! i))]\<rparr>"

subsection \<open>Precursor view: compResults (lines 312-330)\<close>

text \<open>
  \<open>precursorMolesMap\<close>: a \<open>Map\<close> filled by \<open>products.forEach\<close>; only \<open>get\<close> is used on
  it here, so the insertion order is irrelevant and a later product overwrites an earlier
  one with the same precursor formula.
\<close>

definition precursorMolesMap :: "ProductItem list \<Rightarrow> (string \<rightharpoonup> number)" where
  "precursorMolesMap ps =
     fold (\<lambda>p m. if precursorFormula p \<noteq> [] then m(precursorFormula p \<mapsto> precursorMoles p) else m)
       ps Map.empty"

record ComponentResult = ComponentItem +
  molQty :: number
  productFormula :: "string option"
  adjustedWeight :: "number option"

definition moleRatio :: "ProductItem list \<Rightarrow> string \<Rightarrow> number" where
  "moleRatio ps f = or_default (precursorMolesMap ps f) 1"

definition compResult :: "ProductItem list \<Rightarrow> ComponentItem \<Rightarrow> ComponentResult" where
  "compResult ps c =
     \<lparr>formula = formula c, matrix = matrix c, mw = mw c,
      molQty = (matrix c * mw c * moleRatio ps (formula c)) / 1000,
      productFormula = None, adjustedWeight = None\<rparr>"

definition compResults :: "ComponentItem list \<Rightarrow> ProductItem list \<Rightarrow> ComponentResult list" where
  "compResults cs ps = map (compResult ps) cs"

text \<open>
  The product a component's formula is matched to: the last product of the list whose
  (non-empty) precursor formula is that formula. This is the reading of the map lookup
  used to state the results; \<open>precursorMolesMap_matched\<close> relates it to the source.
\<close>

definition matchedProduct :: "ProductItem list \<Rightarrow> string \<Rightarrow> ProductItem option" where
  "matchedProduct ps f = find (\<lambda>p. precursorFormula p = f \<and> precursorFormula p \<noteq> []) (rev ps)"

subsection \<open>Product view: productResults and productComponents (lines 339-373)\<close>

record ProductResult = ProductItem +
  prod_molQty :: number

definition precursorComp :: "ComponentItem list \<Rightarrow> ProductItem \<Rightarrow> ComponentItem option" where
  "precursorComp cs p = find (\<lambda>c. formula c = precursorFormula p) cs"

definition precursorMatrix :: "ComponentItem list \<Rightarrow> ProductItem \<Rightarrow> number" where
  "precursorMatrix cs p = (case precursorComp cs p of Some c \<Rightarrow> matrix c | None \<Rightarrow> 0)"

definition effectiveMW :: "ProductItem \<Rightarrow> number" where
  "effectiveMW p =
     (case gf p of
        Some g \<Rightarrow> if productMoles p > 0 \<and> precursorMoles p > 0 then prod_mw p * g else prod_mw p
      | None \<Rightarrow> prod_mw p)"

definition productResult :: "ComponentItem list \<Rightarrow> ProductItem \<Rightarrow> ProductResult" where
  "productResult cs p =
     \<lparr>prod_formula = prod_formula p, prod_mw = prod_mw p, gf = gf p,
      precursorFormula = precursorFormula p, precursorMoles = precursorMoles p,
      productMoles = productMoles p,
      prod_molQty = (precursorMatrix cs p * effectiveMW p * productMoles p) / 1000\<rparr>"

definition productResults :: "ComponentItem list \<Rightarrow> ProductItem list \<Rightarrow> ProductResult list" where
  "productResults cs ps = map (productResult cs) ps"

definition productTotalWeight :: "ComponentItem list \<Rightarrow> ProductItem list \<Rightarrow> number" where
  "productTotalWeight cs ps = sum_list (map prod_molQty (productResults cs ps))"

definition productComponent :: "ComponentItem list \<Rightarrow> ProductItem \<Rightarrow> ComponentItem" where
  "productComponent cs p =
     \<lparr>formula = prod_formula p,
      matrix = or_default (map_option matrix (precursorComp cs p)) 0,
      mw = (case gf p of Some g \<Rightarrow> prod_mw p * g | None \<Rightarrow> prod_mw p)\<rparr>"

definition productComponents :: "ComponentItem list \<Rightarrow> ProductItem list \<Rightarrow> ComponentItem list" where
  "productComponents cs ps = map (productComponent cs) ps"

subsection \<open>Precursors with the products' factors: gfResults (lines 384-461)\<close>

definition hasPrecursor :: "ComponentItem list \<Rightarrow> ProductItem \<Rightarrow> bool" where
  "hasPrecursor cs p \<longleftrightarrow> list_ex (\<lambda>c. formula c = precursorFormula p) cs"

definition hasValidProductsWithGF :: "ComponentItem list \<Rightarrow> ProductItem list \<Rightarrow> bool" where
  "hasValidProductsWithGF cs ps \<longleftrightarrow>
     list_ex (\<lambda>p. prod_formula p \<noteq> [] \<and> gf p \<noteq> None \<and> precursorFormula p \<noteq> [] \<and> hasPrecursor cs p) ps"

record ProductInfo =
  info_gf :: number
  info_productFormula :: string
  info_productMW :: number

definition precursorGfMap :: "ComponentItem list \<Rightarrow> ProductItem list \<Rightarrow> (string \<rightharpoonup> ProductInfo)" where
  "precursorGfMap cs ps =
     fold (\<lambda>p m.
         (case gf p of
            Some g \<Rightarrow>
              if precursorFormula p \<noteq> [] \<and> prod_formula p \<noteq> [] \<and> hasPrecursor cs p
              then m(precursorFormula p \<mapsto>
                     \<lparr>info_gf = g, info_productFormula = prod_formula p, info_productMW = prod_mw p\<rparr>)
              else m
          | None \<Rightarrow> m))
       ps Map.empty"

record ComponentWithGF =
  precursor :: string
  gf_matrix :: number
  molecularWeight_used :: number
  gf_used :: number

definition componentWithGF :: "(string \<rightharpoonup> ProductInfo) \<Rightarrow> ComponentItem \<Rightarrow> ComponentWithGF" where
  "componentWithGF gfMap c =
     (let productInfo = gfMap (formula c)
      in \<lparr>precursor = formula c,
          gf_matrix = matrix c,
          molecularWeight_used = or_default (map_option info_productMW productInfo) (mw c),
          gf_used = or_default (map_option info_gf productInfo) 1\<rparr>)"

definition componentsWithGF :: "ComponentItem list \<Rightarrow> ProductItem list \<Rightarrow> ComponentWithGF list" where
  "componentsWithGF cs ps = map (componentWithGF (precursorGfMap cs ps)) cs"

text \<open>
  \<open>calculateTotalWeightWithGF\<close> and \<open>calculateBatchWeights\<close> (\<open>lib/gfUtils\<close>) are not
  part of the sources at hand; \<open>gfResults\<close> takes the list of \<open>(precursor, weight)\<close> pairs
  that \<open>calculateBatchWeights\<close> returns as the parameter \<open>newGfBatchWeights\<close>.
\<close>

definition gfResult ::
  "(string \<rightharpoonup> ProductInfo) \<Rightarrow> (string \<times> number) list \<Rightarrow> ComponentResult \<Rightarrow> ComponentResult" where
  "gfResult gfMap newGfBatchWeights c =
     (case gfMap (formula c) of
        Some productInfo \<Rightarrow>
          c\<lparr>mw := info_productMW productInfo,
            molQty := (matrix c * info_productMW productInfo) / 1000,
            productFormula := Some (info_productFormula productInfo),
            adjustedWeight := Some (or_default
               (map_option snd (find (\<lambda>item. fst item = formula c) newGfBatchWeights)) 0)\<rparr>
      | None \<Rightarrow> c)"

definition gfResults ::
  "(string \<times> number) list \<Rightarrow> ComponentItem list \<Rightarrow> ProductItem list \<Rightarrow> ComponentResult list" where
  "gfResults newGfBatchWeights cs ps =
     (if hasValidProductsWithGF cs ps
      then map (gfResult (precursorGfMap cs ps) newGfBatchWeights) (compResults cs ps)
      else compResults cs ps)"

text \<open>
  The product whose factor a component's formula is given: the last product with that
  (non-empty) precursor formula that has a formula and a factor, the formula being one of
  the components' (\<open>precursorGfMap_gfProduct\<close> relates it to the source).
\<close>

definition gfProduct :: "ComponentItem list \<Rightarrow> ProductItem list \<Rightarrow> string \<Rightarrow> ProductItem option" where
  "gfProduct cs ps f =
     find (\<lambda>p. precursorFormula p = f \<and> gf p \<noteq> None \<and> precursorFormula p \<noteq> []
              \<and> prod_formula p \<noteq> [] \<and> hasPrecursor cs p) (rev ps)"

text \<open>
  The entry that \<open>precursorGfMap.set\<close> stores for a product that has a factor.
\<close>

definition infoOf :: "ProductItem \<Rightarrow> ProductInfo option" where
  "infoOf p = map_option (\<lambda>g. \<lparr>info_gf = g, info_productFormula = prod_formula p,
                                info_productMW = prod_mw p\<rparr>) (gf p)"

subsection \<open>Composition data for the charts: generateCompositionData (lines 463-500)\<close>

record ElementComposition =
  element :: string
  percentage :: "number option"
  color :: string

definition retained :: "ComponentItem \<Rightarrow> bool" where
  "retained c \<longleftrightarrow> \<not> (formula c = [] \<or> matrix c = 0)"

definition compoundMap :: "ComponentItem list \<Rightarrow> (string \<times> number) list" where
  "compoundMap cs =
     fold (\<lambda>c m. if \<not> retained c then m else js_map_set (formula c) (matrix c) m)
       cs []"

definition hashStep :: "int \<Rightarrow> char \<Rightarrow> int" where
  "hashStep hash c = toInt32 ((toInt32 (hash * 2 ^ 5) - hash) + of_char c)"

definition hashCode :: "string \<Rightarrow> int" where
  "hashCode str = foldl hashStep 0 str"

definition hue_of :: "string \<Rightarrow> nat" where
  "hue_of compound = nat \<bar>js_rem (hashCode compound) 360\<bar>"

definition hsl :: "nat \<Rightarrow> string" where
  "hsl hue = ''hsl('' @ decimal hue @ '', 70%, 60%)''"

definition compositionEntry :: "number \<Rightarrow> string \<times> number \<Rightarrow> ElementComposition" where
  "compositionEntry tot = (\<lambda>(compound, v).
     \<lparr>element = compound, percentage = map_option (\<lambda>q. q * 100) (js_div v tot),
      color = hsl (hue_of compound)\<rparr>)"

definition generateCompositionData :: "ComponentItem list \<Rightarrow> ElementComposition list" where
  "generateCompositionData cs =
     (let m = compoundMap cs; tot = sum_list (map snd m)
      in map (compositionEntry tot) m)"

section \<open>Example data\<close>

text \<open>
  A table with the masses of hydrogen, boron and oxygen; the state the provider reaches
  from its initial state once this table is loaded and the first product's mole field is
  edited; and a table text whose first row after the header is malformed.
\<close>

definition boronTable :: "AtomicMass list" where
  "boronTable =
     [\<lparr>Symbol = Some ''H'', Atomic_Mass = Some (1008 / 1000), Element = Some ''Hydrogen'',
       Atomic_Number = Some 1\<rparr>,
      \<lparr>Symbol = Some ''B'', Atomic_Mass = Some (10811 / 1000), Element = Some ''Boron'',
       Atomic_Number = Some 5\<rparr>,
      \<lparr>Symbol = Some ''O'', Atomic_Mass = Some (15999 / 1000), Element = Some ''Oxygen'',
       Atomic_Number = Some 8\<rparr>]"

definition exampleState :: BatchState where
  "exampleState = handleProductChange 0 (ProductMoles 1) (setAtomics boronTable initialState)"

text \<open>
  Two further edits of the first product from that state: its product moles set to 0, and
  its formula set to \<open>H0\<close>, whose molecular weight is 0. Either makes the factor 0.
\<close>

definition zeroMolesState :: BatchState where
  "zeroMolesState = handleProductChange 0 (ProductMoles 0) exampleState"

definition zeroWeightState :: BatchState where
  "zeroWeightState = handleProductChange 0 (ProdFormula ''H0'') exampleState"

definition sampleCsv :: string where
  "sampleCsv = ''Atomic Number,Element,Symbol,Atomic Mass'' @ [CHR 0x0A]
     @ ''bad row'' @ [CHR 0x0A]
     @ ''20,Calcium,Ca,40.078''"

section \<open>Verified properties\<close>

subsection \<open>Evaluation of the examples\<close>

lemmas parse_eval = parse_def read_number_def is_digit_def is_upper_def is_lower_def
  digits_value_def merge_scaled_def

lemma atomicMass_boronTable:
  "atomicMass boronTable ''H'' = Some (1008 / 1000)"
  "atomicMass boronTable ''B'' = Some (10811 / 1000)"
  "atomicMass boronTable ''O'' = Some (15999 / 1000)"
  "atomicMass boronTable ''La'' = None"
  "atomicMass boronTable ''Ca'' = None"
  by (simp_all add: atomicMass_def boronTable_def)

lemma boronTable_nonempty: "boronTable \<noteq> []"
  by (simp add: boronTable_def)

lemma parse_La2O3: "parse ''La2O3'' = Inr [(''La'', 2), (''O'', 3)]"
  by (simp add: parse_eval)

lemma mw_H3BO3: "molecularWeight ''H3BO3'' boronTable = Some (61832 / 1000)"
  by (simp add: molecularWeight_def parse_eval atomicMass_boronTable)

lemma mw_B2O3: "molecularWeight ''B2O3'' boronTable = Some (69619 / 1000)"
  by (simp add: molecularWeight_def parse_eval atomicMass_boronTable)

lemma mw_La2O3: "molecularWeight ''La2O3'' boronTable = None"
  by (simp add: molecularWeight_def parse_La2O3 atomicMass_boronTable)

lemma mw_CaO: "molecularWeight ''CaO'' boronTable = None"
  by (simp add: molecularWeight_def parse_eval atomicMass_boronTable)

lemma gf_example: "calculateGF ''H3BO3'' ''B2O3'' 2 1 boronTable = Some (69619 / 123664)"
  by (simp add: calculateGF_def js_div_def mw_H3BO3 mw_B2O3)

lemma exampleState_atomics: "atomics (setAtomics boronTable initialState) = boronTable"
  by (simp add: setAtomics_def recalcWeights_def)

lemma loaded_components:
  "components (setAtomics boronTable initialState) =
     [\<lparr>formula = ''CaO'', matrix = 30, mw = 0\<rparr>,
      \<lparr>formula = ''La2O3'', matrix = 10, mw = 0\<rparr>,
      \<lparr>formula = ''H3BO3'', matrix = 60, mw = 61832 / 1000\<rparr>]"
  by (simp add: setAtomics_def recalcWeights_def initialState_def initialComponents_def
      rowWeight_def boronTable_nonempty mw_H3BO3 mw_La2O3 mw_CaO or_default_def)

lemma exampleState_components:
  "components exampleState =
     [\<lparr>formula = ''CaO'', matrix = 30, mw = 0\<rparr>,
      \<lparr>formula = ''La2O3'', matrix = 10, mw = 0\<rparr>,
      \<lparr>formula = ''H3BO3'', matrix = 60, mw = 61832 / 1000\<rparr>]"
  by (simp add: exampleState_def handleProductChange_def loaded_components)

lemma exampleState_products:
  "products exampleState =
     [\<lparr>prod_formula = ''B2O3'', prod_mw = 69619 / 1000, gf = Some (69619 / 123664),
       precursorFormula = ''H3BO3'', precursorMoles = 2, productMoles = 1\<rparr>,
      \<lparr>prod_formula = ''La2O3'', prod_mw = 0, gf = None,
       precursorFormula = ''La2O3'', precursorMoles = 1, productMoles = 1\<rparr>]"
  by (simp add: exampleState_def handleProductChange_def setAtomics_def recalcWeights_def
      initialState_def initialProducts_def rowWeight_def boronTable_nonempty
      updateProductField_def refreshGF_def gf_example
      mw_B2O3 mw_La2O3 or_default_def)

lemma exampleState_gfProduct:
  "gfProduct (components exampleState) (products exampleState) ''H3BO3''
     = Some (products exampleState ! 0)"
  "gfProduct (components exampleState) (products exampleState) ''CaO'' = None"
  by (simp_all add: exampleState_components exampleState_products gfProduct_def hasPrecursor_def
      del: not_None_eq)

lemma exampleState_table: "atomics exampleState = boronTable"
  by (simp add: exampleState_def handleProductChange_def exampleState_atomics)

lemma gf_zero_moles: "calculateGF ''H3BO3'' ''B2O3'' 2 0 boronTable = Some 0"
  by (simp add: calculateGF_def js_div_def mw_H3BO3 mw_B2O3)

lemma mw_H0: "molecularWeight ''H0'' boronTable = Some 0"
  by (simp add: molecularWeight_def parse_eval atomicMass_boronTable)

lemma gf_zero_weight: "calculateGF ''H3BO3'' ''H0'' 2 1 boronTable = Some 0"
  by (simp add: calculateGF_def js_div_def mw_H3BO3 mw_H0)

lemma zeroMolesState_components: "components zeroMolesState = components exampleState"
  by (simp add: zeroMolesState_def handleProductChange_def)

lemma zeroMolesState_products:
  "products zeroMolesState =
     [\<lparr>prod_formula = ''B2O3'', prod_mw = 69619 / 1000, gf = Some 0,
       precursorFormula = ''H3BO3'', precursorMoles = 2, productMoles = 0\<rparr>,
      \<lparr>prod_formula = ''La2O3'', prod_mw = 0, gf = None,
       precursorFormula = ''La2O3'', precursorMoles = 1, productMoles = 1\<rparr>]"
  by (simp add: zeroMolesState_def handleProductChange_def exampleState_products
      exampleState_table updateProductField_def refreshGF_def gf_zero_moles)

lemma zeroMolesState_gfProduct:
  "gfProduct (components zeroMolesState) (products zeroMolesState) ''H3BO3''
     = Some (products zeroMolesState ! 0)"
  by (simp add: zeroMolesState_components exampleState_components zeroMolesState_products
      gfProduct_def hasPrecursor_def del: not_None_eq)

lemma zeroWeightState_components: "components zeroWeightState = components exampleState"
  by (simp add: zeroWeightState_def handleProductChange_def)

lemma zeroWeightState_products:
  "products zeroWeightState =
     [\<lparr>prod_formula = ''H0'', prod_mw = 0, gf = Some 0,
       precursorFormula = ''H3BO3'', precursorMoles = 2, productMoles = 1\<rparr>,
      \<lparr>prod_formula = ''La2O3'', prod_mw = 0, gf = None,
       precursorFormula = ''La2O3'', precursorMoles = 1, productMoles = 1\<rparr>]"
  by (simp add: zeroWeightState_def handleProductChange_def exampleState_products
      exampleState_table updateProductField_def refreshGF_def gf_zero_weight mw_H0
      or_default_def)

lemma zeroWeightState_gfProduct:
  "gfProduct (components zeroWeightState) (products zeroWeightState) ''H3BO3''
     = Some (products zeroWeightState ! 0)"
  by (simp add: zeroWeightState_components exampleState_components zeroWeightState_products
      gfProduct_def hasPrecursor_def del: not_None_eq)

lemma csvLines_sample: "csvLines sampleCsv = [''bad row'', ''20,Calcium,Ca,40.078'']"
  by (simp add: csvLines_def sampleCsv_def trim_def is_ws_def)

lemma number_sample:
  "decimalNumber ''20'' = Some 20"
  "decimalNumber ''40.078'' = Some (40078 / 1000)"
  "decimalNumber ''bad row'' = None"
  by (simp_all add: decimalNumber_def unsignedDecimal_def trim_def is_ws_def is_digit_def
      digits_value_def)

subsection \<open>Resizing the component list\<close>

lemma length_resizeComponents:
  "0 \<le> n \<Longrightarrow> int (length (resizeComponents n prev)) = n"
  by (auto simp: resizeComponents_def slice0_def)

lemma resizeComponents_old:
  "0 \<le> n \<Longrightarrow> i < min (nat n) (length prev) \<Longrightarrow> resizeComponents n prev ! i = prev ! i"
  by (auto simp: resizeComponents_def slice0_def nth_append)

lemma resizeComponents_new:
  "0 \<le> n \<Longrightarrow> length prev \<le> i \<Longrightarrow> i < nat n \<Longrightarrow>
     resizeComponents n prev ! i = emptyComponent"
  by (auto simp: resizeComponents_def slice0_def nth_append)

text \<open>
  Claim C10. For every components list and every \<open>n \<ge> 0\<close>, setting the number of
  components to \<open>n\<close> gives a components list of length exactly \<open>n\<close>; its first
  \<open>min n (previous length)\<close> entries are the previous entries, unchanged in every field;
  every appended entry is \<open>{formula: "", matrix: 0, mw: 0}\<close>; and \<open>numProducts\<close> becomes \<open>n\<close>.
\<close>

theorem setNumComponents_frame:
  assumes "0 \<le> n"
  shows "int (length (components (setNumComponents n st))) = n
    \<and> (\<forall>i < min (nat n) (length (components st)).
          components (setNumComponents n st) ! i = components st ! i)
    \<and> (\<forall>i. length (components st) \<le> i \<and> i < nat n \<longrightarrow>
          components (setNumComponents n st) ! i = \<lparr>formula = [], matrix = 0, mw = 0\<rparr>)
    \<and> numProducts (setNumComponents n st) = n
    \<and> numComponents (setNumComponents n st) = n"
  using assms
  by (simp add: setNumComponents_def length_resizeComponents resizeComponents_old
      resizeComponents_new emptyComponent_def [symmetric])

theorem setNumComponents_frame_witness:
  "(0::int) \<le> 5
   \<and> length (components (setNumComponents 5 initialState)) = 5
   \<and> components (setNumComponents 5 initialState) ! 2 = \<lparr>formula = ''H3BO3'', matrix = 60, mw = 0\<rparr>
   \<and> components (setNumComponents 5 initialState) ! 4 = \<lparr>formula = [], matrix = 0, mw = 0\<rparr>
   \<and> numProducts (setNumComponents 5 initialState) = 5"
proof -
  have n: "(0::int) \<le> 5" by simp
  have len: "length (components initialState) = 3"
    by (simp add: initialState_def initialComponents_def)
  have third: "components initialState ! 2 = \<lparr>formula = ''H3BO3'', matrix = 60, mw = 0\<rparr>"
    by (simp add: initialState_def initialComponents_def)
  from setNumComponents_frame [OF n, of initialState] len third
  show ?thesis by simp
qed

subsection \<open>The atomic-mass loader\<close>

lemma parseRow_four:
  "split_on CHR '','' l = a # b # c # d # rest \<Longrightarrow>
     parseRow num l = \<lparr>Symbol = Some c, Atomic_Mass = num d, Element = Some b, Atomic_Number = num a\<rparr>"
  by (simp add: parseRow_def nth_opt_def toNumber_def)

lemma parseRow_short:
  "length (split_on CHR '','' l) < 3 \<Longrightarrow>
     Symbol (parseRow num l) = None \<and> Atomic_Mass (parseRow num l) = None"
  by (simp add: parseRow_def nth_opt_def toNumber_def Let_def)

lemma length_loadAtomics:
  "length (loadAtomics num txt) = length (split_on (CHR 0x0A) (trim txt)) - 1"
  by (simp add: loadAtomics_def csvLines_def)

lemma nth_loadAtomics:
  "i < length (loadAtomics num txt) \<Longrightarrow>
     loadAtomics num txt ! i = parseRow num (split_on (CHR 0x0A) (trim txt) ! Suc i)"
  by (simp add: loadAtomics_def csvLines_def)

text \<open>
  Claim C9, as the code has it. The loader skips the first (header) line and turns every
  later line into an entry, the comma-separated columns read in the fixed order
  AtomicNumber, ElementName, Symbol, AtomicMass; the load never aborts. The claim as stated
  fails in one part: a malformed row is not rejected. A row with fewer than three columns
  still yields an entry, whose symbol is undefined and whose mass is \<open>NaN\<close>.
\<close>

theorem loadAtomics_rows:
  "length (loadAtomics num txt) = length (split_on (CHR 0x0A) (trim txt)) - 1
   \<and> (\<forall>i < length (loadAtomics num txt).
         loadAtomics num txt ! i = parseRow num (split_on (CHR 0x0A) (trim txt) ! Suc i))
   \<and> (\<forall>l a b c d rest. split_on CHR '','' l = a # b # c # d # rest \<longrightarrow>
         parseRow num l
           = \<lparr>Symbol = Some c, Atomic_Mass = num d, Element = Some b, Atomic_Number = num a\<rparr>)
   \<and> (\<forall>l. length (split_on CHR '','' l) < 3 \<longrightarrow>
         Symbol (parseRow num l) = None \<and> Atomic_Mass (parseRow num l) = None)"
  using length_loadAtomics nth_loadAtomics parseRow_four parseRow_short by blast

theorem loadAtomics_rows_witness:
  "length (loadAtomics decimalNumber sampleCsv) = 2
   \<and> (1::nat) < length (loadAtomics decimalNumber sampleCsv)
   \<and> loadAtomics decimalNumber sampleCsv ! 1 = parseRow decimalNumber ''20,Calcium,Ca,40.078''
   \<and> split_on CHR '','' ''20,Calcium,Ca,40.078'' = [''20'', ''Calcium'', ''Ca'', ''40.078'']
   \<and> parseRow decimalNumber ''20,Calcium,Ca,40.078''
       = \<lparr>Symbol = Some ''Ca'', Atomic_Mass = Some (40078 / 1000), Element = Some ''Calcium'',
          Atomic_Number = Some 20\<rparr>
   \<and> length (split_on CHR '','' ''bad row'') < 3
   \<and> Symbol (parseRow decimalNumber ''bad row'') = None"
proof -
  note r = loadAtomics_rows [of decimalNumber sampleCsv]
  have s: "split_on (CHR 0x0A) (trim sampleCsv)
      = [''Atomic Number,Element,Symbol,Atomic Mass'', ''bad row'', ''20,Calcium,Ca,40.078'']"
    by (simp add: sampleCsv_def trim_def is_ws_def)
  have len: "length (loadAtomics decimalNumber sampleCsv) = 2"
    using r [THEN conjunct1] by (simp add: s)
  then have lt: "(1::nat) < length (loadAtomics decimalNumber sampleCsv)" by simp
  have row: "loadAtomics decimalNumber sampleCsv ! 1 = parseRow decimalNumber ''20,Calcium,Ca,40.078''"
    using r [THEN conjunct2, THEN conjunct1, rule_format, OF lt] by (simp add: s)
  have sp: "split_on CHR '','' ''20,Calcium,Ca,40.078'' = [''20'', ''Calcium'', ''Ca'', ''40.078'']"
    by simp
  have ca: "parseRow decimalNumber ''20,Calcium,Ca,40.078''
       = \<lparr>Symbol = Some ''Ca'', Atomic_Mass = Some (40078 / 1000), Element = Some ''Calcium'',
          Atomic_Number = Some 20\<rparr>"
    using r [THEN conjunct2, THEN conjunct2, THEN conjunct1, rule_format, OF sp]
    by (simp add: number_sample)
  have short: "length (split_on CHR '','' ''bad row'') < 3" by simp
  have bad: "Symbol (parseRow decimalNumber ''bad row'') = None"
    using r [THEN conjunct2, THEN conjunct2, THEN conjunct2, rule_format, OF short] by simp
  from len lt row sp ca short bad show ?thesis by simp
qed

theorem loadAtomics_malformed_counterexample:
  "loadAtomics decimalNumber sampleCsv =
     [\<lparr>Symbol = None, Atomic_Mass = None, Element = None, Atomic_Number = None\<rparr>,
      \<lparr>Symbol = Some ''Ca'', Atomic_Mass = Some (40078 / 1000), Element = Some ''Calcium'',
       Atomic_Number = Some 20\<rparr>]"
  by (simp add: loadAtomics_def csvLines_sample parseRow_def nth_opt_def toNumber_def number_sample)

subsection \<open>Parsing formulas\<close>

lemma count_of_add_count:
  "count_of (add_count s n m) s' = count_of m s' + (if s = s' then n else 0)"
  by (induction s n m rule: add_count.induct) (auto simp: count_of_def)

lemma count_of_fold_add:
  "count_of (fold (\<lambda>(s, n) m. add_count s (n * k) m) popped parent) s'
     = count_of parent s' + k * count_of popped s'"
proof (induction popped arbitrary: parent)
  case Nil
  show ?case by (simp add: count_of_def)
next
  case (Cons e popped)
  obtain s n where e: "e = (s, n)" by (cases e)
  have c: "count_of ((s, n) # popped) s' = (if s = s' then n else 0) + count_of popped s'"
    by (simp add: count_of_def)
  show ?case
    unfolding e by (simp add: Cons.IH count_of_add_count c algebra_simps)
qed

lemma count_of_merge_scaled:
  "count_of (merge_scaled k popped parent) s = count_of parent s + k * count_of popped s"
  by (simp add: merge_scaled_def count_of_fold_add)

text \<open>
  Claim C4. Parsing \<open>Ca3(PO4)2\<close> succeeds with the element counts Ca: 3, P: 2, O: 8. The
  literal after a closing parenthesis multiplies every count of the group, and the
  multiplied counts are added to the entries of the enclosing scope, not written over them:
  in \<open>CaO(OH)2\<close> oxygen counts 1 + 2.
\<close>

theorem parse_Ca3PO42:
  "parse ''Ca3(PO4)2'' = Inr [(''Ca'', 3), (''P'', 2), (''O'', 8)]
   \<and> parse ''CaO(OH)2'' = Inr [(''Ca'', 1), (''O'', 3), (''H'', 2)]
   \<and> count_of (merge_scaled k popped parent) s = count_of parent s + k * count_of popped s"
proof -
  have "parse ''Ca3(PO4)2'' = Inr [(''Ca'', 3), (''P'', 2), (''O'', 8)]"
    by (simp add: parse_eval)
  moreover have "parse ''CaO(OH)2'' = Inr [(''Ca'', 1), (''O'', 3), (''H'', 2)]"
    by (simp add: parse_eval)
  ultimately show ?thesis by (simp add: count_of_merge_scaled)
qed

subsection \<open>The gravimetric factor\<close>

lemma calculateGF_defined:
  "molecularWeight pre t = Some a \<Longrightarrow> molecularWeight prd t = Some b \<Longrightarrow> 0 < pm \<Longrightarrow>
     calculateGF pre prd pm qm t = js_div (qm * b) (pm * a)"
  by (simp add: calculateGF_def)

lemma calculateGF_Some:
  "molecularWeight pre t = Some a \<Longrightarrow> molecularWeight prd t = Some b \<Longrightarrow> 0 < pm \<Longrightarrow>
     a \<noteq> 0 \<Longrightarrow> calculateGF pre prd pm qm t = Some ((qm * b) / (pm * a))"
  by (simp add: calculateGF_def js_div_def)

lemma calculateGF_None:
  "molecularWeight pre t = None \<or> molecularWeight prd t = None \<or> pm \<le> 0 \<Longrightarrow>
     calculateGF pre prd pm qm t = None"
  by (auto simp: calculateGF_def split: option.splits)

text \<open>
  Claim C5. The gravimetric factor is
  \<open>(productMoles * MW product) / (precursorMoles * MW precursor)\<close>; it is undefined whenever
  either molecular weight is undefined or \<open>precursorMoles \<le> 0\<close>; \<open>productMoles = 0\<close> is
  permitted and gives 0; with H = 1.008, B = 10.811 and O = 15.999 the factor from two
  H3BO3 to one B2O3 is 69619/123664, within a thousandth of 0.5625. The quotient is the
  JavaScript one: its value is given where the precursor's weight is not 0.
\<close>

theorem calculateGF_spec:
  "(molecularWeight pre t = Some a \<and> molecularWeight prd t = Some b \<and> 0 < pm \<longrightarrow>
      calculateGF pre prd pm qm t = js_div (qm * b) (pm * a)
      \<and> (a \<noteq> 0 \<longrightarrow> calculateGF pre prd pm qm t = Some ((qm * b) / (pm * a))
                   \<and> calculateGF pre prd pm 0 t = Some 0))
   \<and> (molecularWeight pre t = None \<or> molecularWeight prd t = None \<or> pm \<le> 0 \<longrightarrow>
      calculateGF pre prd pm qm t = None)
   \<and> calculateGF ''H3BO3'' ''B2O3'' 2 1 boronTable = Some (69619 / 123664)
   \<and> \<bar>69619 / 123664 - 5625 / 10000\<bar> < (1 / 1000 :: real)"
proof -
  have "calculateGF ''H3BO3'' ''B2O3'' 2 1 boronTable = Some (69619 / 123664)"
    using calculateGF_Some [OF mw_H3BO3 mw_B2O3, of 2 1] by simp
  then show ?thesis
    using calculateGF_None [of pre t prd pm qm]
    by (auto simp: calculateGF_Some calculateGF_defined)
qed

theorem calculateGF_spec_witness:
  "molecularWeight ''H3BO3'' boronTable = Some (61832 / 1000)
   \<and> molecularWeight ''B2O3'' boronTable = Some (69619 / 1000)
   \<and> (0::real) < 2 \<and> (61832 / 1000 :: real) \<noteq> 0
   \<and> calculateGF ''H3BO3'' ''B2O3'' 2 1 boronTable
        = Some ((1 * (69619 / 1000)) / (2 * (61832 / 1000)))
   \<and> calculateGF ''H3BO3'' ''B2O3'' 2 0 boronTable = Some 0
   \<and> molecularWeight ''H3BO3'' [] = None
   \<and> calculateGF ''H3BO3'' ''B2O3'' 2 1 [] = None"
proof -
  have n: "molecularWeight ''H3BO3'' [] = None"
    by (simp add: molecularWeight_def parse_eval atomicMass_def)
  from calculateGF_spec [of "''H3BO3''" boronTable "61832 / 1000" "''B2O3''" "69619 / 1000" 2 1]
    calculateGF_spec [of "''H3BO3''" "[]" 0 "''B2O3''" 0 2 1]
    mw_H3BO3 mw_B2O3 n
  show ?thesis by simp
qed

subsection \<open>Normalizing to the desired total\<close>

lemma normalize_zero_total:
  "sum_list (map raw cs) = 0 \<Longrightarrow> normalize cs d = replicate (length cs) (Some 0)"
  by (simp add: normalize_def Let_def map_replicate_const)

lemma normalize_defined: "None \<notin> set (normalize cs d)"
  by (auto simp: normalize_def Let_def js_div_def)

text \<open>
  Claim C6. For every component list whose total raw quantity is 0, every normalized value
  is 0: the division by the total is not performed, and no value of the output is
  undefined, \<open>NaN\<close> or infinite.
\<close>

theorem normalize_zero_safe:
  assumes "sum_list (map raw cs) = 0"
  shows "normalize cs d = replicate (length cs) (Some 0) \<and> None \<notin> set (normalize cs d)"
  using assms by (simp add: normalize_zero_total normalize_defined)

theorem normalize_zero_safe_witness:
  "sum_list (map raw [\<lparr>matrixPercent = 0, weight = 56077 / 1000, normMoleRatio = 1\<rparr>,
                     \<lparr>matrixPercent = 10, weight = 0, normMoleRatio = 1\<rparr>]) = 0
   \<and> normalize [\<lparr>matrixPercent = 0, weight = 56077 / 1000, normMoleRatio = 1\<rparr>,
               \<lparr>matrixPercent = 10, weight = 0, normMoleRatio = 1\<rparr>] 5 = [Some 0, Some 0]"
proof -
  let ?cs = "[\<lparr>matrixPercent = 0, weight = 56077 / 1000, normMoleRatio = 1\<rparr>,
              \<lparr>matrixPercent = 10, weight = 0, normMoleRatio = 1\<rparr>]"
  have z: "sum_list (map raw ?cs) = 0" by (simp add: raw_def)
  from normalize_zero_safe [OF z, of 5] z show ?thesis by simp
qed

subsection \<open>Undefined molecular weights\<close>

lemma weigh_counts_absent:
  "s \<in> fst ` set counts \<Longrightarrow> atomicMass t s = None \<Longrightarrow> weigh_counts t counts = None"
proof (induction counts)
  case Nil
  then show ?case by simp
next
  case (Cons e counts)
  obtain k n where e: "e = (k, n)" by (cases e)
  show ?case
  proof (cases "k = s")
    case True
    with Cons.prems show ?thesis by (simp add: e)
  next
    case False
    with Cons.prems have "s \<in> fst ` set counts" by (auto simp: e)
    then have "weigh_counts t counts = None" using Cons.prems(2) by (rule Cons.IH)
    then show ?thesis by (simp add: e split: option.splits)
  qed
qed

lemma molecularWeight_parse_fails: "parse f = Inl e \<Longrightarrow> molecularWeight f t = None"
  by (simp add: molecularWeight_def)

lemma molecularWeight_absent:
  "parse f = Inr counts \<Longrightarrow> s \<in> fst ` set counts \<Longrightarrow> atomicMass t s = None \<Longrightarrow>
     molecularWeight f t = None"
  by (simp add: molecularWeight_def weigh_counts_absent)

lemma handleComponentChange_mw:
  "i < length (components st) \<Longrightarrow>
     mw (components (handleComponentChange i (Formula f) st) ! i)
       = or_default (molecularWeight f (atomics st)) 0
     \<and> formula (components (handleComponentChange i (Formula f) st) ! i) = f
     \<and> matrix (components (handleComponentChange i (Formula f) st) ! i) = matrix (components st ! i)"
  by (simp add: handleComponentChange_def)

lemma compResults_mw_zero:
  "i < length cs \<Longrightarrow> mw (cs ! i) = 0 \<Longrightarrow> molQty (compResults cs ps ! i) = 0"
  by (simp add: compResults_def compResult_def)

lemma setAtomics_mw:
  "i < length (components st) \<Longrightarrow>
     mw (components (setAtomics t st) ! i) = rowWeight t (formula (components st ! i))
     \<and> formula (components (setAtomics t st) ! i) = formula (components st ! i)"
  by (simp add: setAtomics_def recalcWeights_def)

lemma rowWeight_undefined: "molecularWeight f t = None \<Longrightarrow> rowWeight t f = 0"
  by (simp add: rowWeight_def or_default_def)

text \<open>
  Claim C1, as the code has it. If parsing fails or a symbol of the formula is absent
  from the table, the molecular weight is undefined, and so is every gravimetric factor
  computed from that formula. The claim as stated fails in its second half: the rows of
  the provider store \<open>molecularWeight(...) || 0\<close>, so the component's weight is the number
  0 and its raw quantity is 0; the undefined value does not reach the component weights
  and the batch quantities.
\<close>

theorem undefined_weight_stored_as_zero:
  assumes "parse f = Inl e \<or> (\<exists>counts s. parse f = Inr counts \<and> s \<in> fst ` set counts \<and> atomicMass t s = None)"
    and "atomics st = t" and "i < length (components st)"
  shows "molecularWeight f t = None
    \<and> calculateGF f g pm qm t = None \<and> calculateGF g f pm qm t = None
    \<and> mw (components (handleComponentChange i (Formula f) st) ! i) = 0
    \<and> molQty (compResults (components (handleComponentChange i (Formula f) st))
                          (products (handleComponentChange i (Formula f) st)) ! i) = 0
    \<and> (formula (components st ! i) = f \<longrightarrow>
         mw (components (setAtomics t st) ! i) = 0
         \<and> molQty (compResults (components (setAtomics t st)) (products (setAtomics t st)) ! i) = 0)"
proof -
  from assms(1) have u: "molecularWeight f t = None"
    using molecularWeight_parse_fails [of f] molecularWeight_absent [of f] by blast
  have gf1: "calculateGF f g pm qm t = None" and gf2: "calculateGF g f pm qm t = None"
    using u by (simp_all add: calculateGF_def split: option.splits)
  let ?st = "handleComponentChange i (Formula f) st"
  have len: "i < length (components ?st)"
    using assms(3) by (simp add: handleComponentChange_def)
  have z: "mw (components ?st ! i) = 0"
    using handleComponentChange_mw [OF assms(3), of f] u assms(2) by (simp add: or_default_def)
  have q: "molQty (compResults (components ?st) (products ?st) ! i) = 0"
    using len z by (rule compResults_mw_zero)
  have len2: "i < length (components (setAtomics t st))"
    using assms(3) by (simp add: setAtomics_def recalcWeights_def)
  have e: "formula (components st ! i) = f \<longrightarrow>
         mw (components (setAtomics t st) ! i) = 0
         \<and> molQty (compResults (components (setAtomics t st)) (products (setAtomics t st)) ! i) = 0"
  proof
    assume f: "formula (components st ! i) = f"
    have "mw (components (setAtomics t st) ! i) = 0"
      using setAtomics_mw [OF assms(3), of t] f u by (simp add: rowWeight_undefined)
    then show "mw (components (setAtomics t st) ! i) = 0
         \<and> molQty (compResults (components (setAtomics t st)) (products (setAtomics t st)) ! i) = 0"
      using compResults_mw_zero [OF len2] by simp
  qed
  from u gf1 gf2 z q e show ?thesis by simp
qed

theorem undefined_weight_zeroed_counterexample:
  "molecularWeight ''La2O3'' boronTable = None
   \<and> mw (components (setAtomics boronTable initialState) ! 1) = 0
   \<and> molQty (compResults (components (setAtomics boronTable initialState))
                         (products (setAtomics boronTable initialState)) ! 1) = 0
   \<and> mw (components (handleComponentChange 2 (Formula ''La2O3'')
                        (setAtomics boronTable initialState)) ! 2) = 0"
proof -
  have l: "length (components (setAtomics boronTable initialState)) = 3"
    by (simp add: loaded_components)
  have c: "mw (components (setAtomics boronTable initialState) ! 1) = 0"
    by (simp add: loaded_components)
  have q: "molQty (compResults (components (setAtomics boronTable initialState))
                         (products (setAtomics boronTable initialState)) ! 1) = 0"
    using l c by (simp add: compResults_mw_zero)
  have h: "mw (components (handleComponentChange 2 (Formula ''La2O3'')
                        (setAtomics boronTable initialState)) ! 2) = 0"
    using l by (simp add: handleComponentChange_def exampleState_atomics mw_La2O3 or_default_def)
  from mw_La2O3 c q h show ?thesis by simp
qed

theorem undefined_weight_stored_as_zero_witness:
  "parse ''La2O3'' = Inr [(''La'', 2), (''O'', 3)]
   \<and> ''La'' \<in> fst ` set [(''La'', 2 :: real), (''O'', 3)]
   \<and> atomicMass boronTable ''La'' = None
   \<and> atomics (setAtomics boronTable initialState) = boronTable
   \<and> (1::nat) < length (components (setAtomics boronTable initialState))
   \<and> formula (components (setAtomics boronTable initialState) ! 1) = ''La2O3''
   \<and> molecularWeight ''La2O3'' boronTable = None
   \<and> calculateGF ''La2O3'' ''La2O3'' 1 1 boronTable = None
   \<and> mw (components (handleComponentChange 1 (Formula ''La2O3'')
                        (setAtomics boronTable initialState)) ! 1) = 0
   \<and> mw (components (setAtomics boronTable (setAtomics boronTable initialState)) ! 1) = 0
   \<and> parse ''Ca(OH'' = Inl UnclosedOpen
   \<and> molecularWeight ''Ca(OH'' boronTable = None
   \<and> mw (components (handleComponentChange 1 (Formula ''Ca(OH'')
                        (setAtomics boronTable initialState)) ! 1) = 0"
proof -
  let ?st = "setAtomics boronTable initialState"
  have l: "(1::nat) < length (components ?st)"
    by (simp add: loaded_components)
  have f: "formula (components ?st ! 1) = ''La2O3''"
    by (simp add: loaded_components)
  have p: "parse ''La2O3'' = Inl e
      \<or> (\<exists>counts s. parse ''La2O3'' = Inr counts \<and> s \<in> fst ` set counts
            \<and> atomicMass boronTable s = None)" for e
    using parse_La2O3 atomicMass_boronTable(4) by force
  have u: "parse ''Ca(OH'' = Inl UnclosedOpen"
    by (simp add: parse_eval)
  then have q: "parse ''Ca(OH'' = Inl UnclosedOpen
      \<or> (\<exists>counts s. parse ''Ca(OH'' = Inr counts \<and> s \<in> fst ` set counts
            \<and> atomicMass boronTable s = None)"
    by simp
  from undefined_weight_stored_as_zero [OF p exampleState_atomics l, of "''La2O3''" 1 1]
    undefined_weight_stored_as_zero [OF q exampleState_atomics l, of "''La2O3''" 1 1]
    parse_La2O3 atomicMass_boronTable(4) exampleState_atomics l f u
  show ?thesis by simp
qed

subsection \<open>Raw quantities of the precursor view\<close>

lemma precursorMolesMap_snoc:
  "precursorMolesMap (ps @ [p]) =
     (if precursorFormula p \<noteq> [] then (precursorMolesMap ps)(precursorFormula p \<mapsto> precursorMoles p)
      else precursorMolesMap ps)"
  by (simp add: precursorMolesMap_def)

lemma precursorMolesMap_matched:
  "precursorMolesMap ps f = map_option precursorMoles (matchedProduct ps f)"
proof (induction ps rule: rev_induct)
  case Nil
  show ?case by (simp add: precursorMolesMap_def matchedProduct_def)
next
  case (snoc p ps)
  then show ?case
    by (auto simp: precursorMolesMap_snoc matchedProduct_def)
qed

lemma moleRatio_matched:
  "moleRatio ps f =
     (case matchedProduct ps f of None \<Rightarrow> 1
      | Some p \<Rightarrow> if precursorMoles p = 0 then 1 else precursorMoles p)"
  by (simp add: moleRatio_def or_default_def precursorMolesMap_matched split: option.splits)

lemma matchedProduct_None_iff:
  "matchedProduct ps f = None \<longleftrightarrow> (f = [] \<or> (\<forall>p \<in> set ps. precursorFormula p \<noteq> f))"
  by (auto simp: matchedProduct_def find_None_iff)

lemma matchedProduct_SomeD:
  "matchedProduct ps f = Some p \<Longrightarrow> p \<in> set ps \<and> precursorFormula p = f \<and> f \<noteq> []"
proof -
  assume "matchedProduct ps f = Some p"
  then obtain i where i: "i < length (rev ps)" "rev ps ! i = p"
    "precursorFormula (rev ps ! i) = f \<and> precursorFormula (rev ps ! i) \<noteq> []"
    unfolding matchedProduct_def find_Some_iff by blast
  from i(1) have "rev ps ! i \<in> set (rev ps)" by (rule nth_mem)
  with i show ?thesis by auto
qed

text \<open>
  Claim C2. For every component of the list, the raw quantity is
  \<open>matrix * mw * moleRatio / 1000\<close>, where \<open>moleRatio\<close> is the precursor-mole value of the
  product matched to the component's formula, and 1 when no product supplies one: when no
  product is matched, and also when the matched product's value is 0, which is falsy in
  \<open>||\<close>.
\<close>

theorem compResults_molQty:
  assumes "i < length cs"
  shows "length (compResults cs ps) = length cs
    \<and> molQty (compResults cs ps ! i)
        = matrix (cs ! i) * mw (cs ! i) * moleRatio ps (formula (cs ! i)) / 1000
    \<and> precursorMolesMap ps (formula (cs ! i))
        = map_option precursorMoles (matchedProduct ps (formula (cs ! i)))
    \<and> moleRatio ps (formula (cs ! i))
        = (case matchedProduct ps (formula (cs ! i)) of
             None \<Rightarrow> 1
           | Some p \<Rightarrow> if precursorMoles p = 0 then 1 else precursorMoles p)
    \<and> (matchedProduct ps (formula (cs ! i)) = None
         \<longleftrightarrow> formula (cs ! i) = [] \<or> (\<forall>p \<in> set ps. precursorFormula p \<noteq> formula (cs ! i)))"
  using assms
  by (simp add: compResults_def compResult_def moleRatio_matched [symmetric]
      matchedProduct_None_iff precursorMolesMap_matched [symmetric])

theorem compResults_molQty_witness:
  "(2::nat) < length [\<lparr>formula = ''CaO'', matrix = 30, mw = 56077 / 1000\<rparr>,
                     \<lparr>formula = ''La2O3'', matrix = 10, mw = 325807 / 1000\<rparr>,
                     \<lparr>formula = ''H3BO3'', matrix = 60, mw = 61832 / 1000\<rparr>]
   \<and> matchedProduct initialProducts ''H3BO3'' = Some (initialProducts ! 0)
   \<and> precursorMoles (initialProducts ! 0) = 2
   \<and> molQty (compResults [\<lparr>formula = ''CaO'', matrix = 30, mw = 56077 / 1000\<rparr>,
                           \<lparr>formula = ''La2O3'', matrix = 10, mw = 325807 / 1000\<rparr>,
                           \<lparr>formula = ''H3BO3'', matrix = 60, mw = 61832 / 1000\<rparr>]
                initialProducts ! 2) = 60 * (61832 / 1000) * 2 / 1000
   \<and> matchedProduct initialProducts ''CaO'' = None
   \<and> molQty (compResults [\<lparr>formula = ''CaO'', matrix = 30, mw = 56077 / 1000\<rparr>,
                           \<lparr>formula = ''La2O3'', matrix = 10, mw = 325807 / 1000\<rparr>,
                           \<lparr>formula = ''H3BO3'', matrix = 60, mw = 61832 / 1000\<rparr>]
                initialProducts ! 0) = 30 * (56077 / 1000) * 1 / 1000"
proof -
  let ?cs = "[\<lparr>formula = ''CaO'', matrix = 30, mw = 56077 / 1000\<rparr>,
              \<lparr>formula = ''La2O3'', matrix = 10, mw = 325807 / 1000\<rparr>,
              \<lparr>formula = ''H3BO3'', matrix = 60, mw = 61832 / 1000\<rparr>]"
  have m: "matchedProduct initialProducts ''H3BO3'' = Some (initialProducts ! 0)"
    and n: "matchedProduct initialProducts ''CaO'' = None"
    by (simp_all add: matchedProduct_def initialProducts_def)
  have two: "precursorMoles (initialProducts ! 0) = 2"
    by (simp add: initialProducts_def)
  have l2: "(2::nat) < length ?cs" and l0: "(0::nat) < length ?cs"
    by simp_all
  from compResults_molQty [OF l2, of initialProducts] compResults_molQty [OF l0, of initialProducts]
    m n two
  show ?thesis by simp
qed

subsection \<open>The product view and the view with the products' factors\<close>

lemma precursorGfMap_snoc:
  "precursorGfMap cs (ps @ [p]) =
     (case gf p of
        Some g \<Rightarrow>
          if precursorFormula p \<noteq> [] \<and> prod_formula p \<noteq> [] \<and> hasPrecursor cs p
          then (precursorGfMap cs ps)(precursorFormula p \<mapsto>
                 \<lparr>info_gf = g, info_productFormula = prod_formula p, info_productMW = prod_mw p\<rparr>)
          else precursorGfMap cs ps
      | None \<Rightarrow> precursorGfMap cs ps)"
  by (simp add: precursorGfMap_def split: option.splits)

lemma precursorGfMap_gfProduct:
  "precursorGfMap cs ps f = Option.bind (gfProduct cs ps f) infoOf"
proof (induction ps rule: rev_induct)
  case Nil
  show ?case by (simp add: precursorGfMap_def gfProduct_def)
next
  case (snoc p ps)
  then show ?case
    by (auto simp: precursorGfMap_snoc gfProduct_def infoOf_def split: option.splits)
qed

lemma gfProduct_SomeD:
  assumes "gfProduct cs ps f = Some p"
  shows "p \<in> set ps" and "precursorFormula p = f" and "gf p \<noteq> None" and "f \<noteq> []"
    and "prod_formula p \<noteq> []" and "hasPrecursor cs p"
proof -
  from assms obtain i where i: "i < length (rev ps)" "rev ps ! i = p"
    "precursorFormula (rev ps ! i) = f \<and> gf (rev ps ! i) \<noteq> None
       \<and> precursorFormula (rev ps ! i) \<noteq> [] \<and> prod_formula (rev ps ! i) \<noteq> []
       \<and> hasPrecursor cs (rev ps ! i)"
    unfolding gfProduct_def find_Some_iff by blast
  from i(1) have "rev ps ! i \<in> set (rev ps)" by (rule nth_mem)
  with i show "p \<in> set ps" by simp
  from i show "precursorFormula p = f" "gf p \<noteq> None" "f \<noteq> []" "prod_formula p \<noteq> []"
    "hasPrecursor cs p" by auto
qed

lemma gfProduct_valid: "gfProduct cs ps f = Some p \<Longrightarrow> hasValidProductsWithGF cs ps"
  using gfProduct_SomeD [of cs ps f p]
  by (auto simp: hasValidProductsWithGF_def list_ex_iff)

lemma precursorGfMap_None: "gfProduct cs ps f = None \<Longrightarrow> precursorGfMap cs ps f = None"
  by (simp add: precursorGfMap_gfProduct)

lemma precursorGfMap_Some:
  "gfProduct cs ps f = Some p \<Longrightarrow> gf p = Some g \<Longrightarrow>
     precursorGfMap cs ps f
       = Some \<lparr>info_gf = g, info_productFormula = prod_formula p, info_productMW = prod_mw p\<rparr>"
  by (simp add: precursorGfMap_gfProduct infoOf_def)

lemma componentsWithGF_without:
  "j < length cs \<Longrightarrow> gfProduct cs ps (formula (cs ! j)) = None \<Longrightarrow>
     molecularWeight_used (componentsWithGF cs ps ! j) = mw (cs ! j)
     \<and> gf_used (componentsWithGF cs ps ! j) = 1"
  by (simp add: componentsWithGF_def componentWithGF_def precursorGfMap_None or_default_def)

lemma componentsWithGF_with:
  "j < length cs \<Longrightarrow> gfProduct cs ps (formula (cs ! j)) = Some p \<Longrightarrow> gf p = Some g \<Longrightarrow>
     molecularWeight_used (componentsWithGF cs ps ! j) = (if prod_mw p = 0 then mw (cs ! j) else prod_mw p)
     \<and> gf_used (componentsWithGF cs ps ! j) = (if g = 0 then 1 else g)"
  by (simp add: componentsWithGF_def componentWithGF_def precursorGfMap_Some or_default_def)

lemma gfResults_without:
  "j < length cs \<Longrightarrow> gfProduct cs ps (formula (cs ! j)) = None \<Longrightarrow>
     gfResults w cs ps ! j = compResults cs ps ! j"
  by (simp add: gfResults_def gfResult_def compResults_def compResult_def precursorGfMap_None)

lemma gfResults_with:
  "j < length cs \<Longrightarrow> gfProduct cs ps (formula (cs ! j)) = Some p \<Longrightarrow>
     mw (gfResults w cs ps ! j) = prod_mw p
     \<and> molQty (gfResults w cs ps ! j) = (matrix (cs ! j) * prod_mw p) / 1000
     \<and> formula (gfResults w cs ps ! j) = formula (cs ! j)
     \<and> matrix (gfResults w cs ps ! j) = matrix (cs ! j)"
proof -
  assume j: "j < length cs" and p: "gfProduct cs ps (formula (cs ! j)) = Some p"
  from gfProduct_SomeD(3) [OF p] obtain g where g: "gf p = Some g" by auto
  have v: "hasValidProductsWithGF cs ps" using p by (rule gfProduct_valid)
  show ?thesis
    using j v precursorGfMap_Some [OF p g]
    by (simp add: gfResults_def gfResult_def compResults_def compResult_def)
qed

lemma productResults_molQty:
  "i < length ps \<Longrightarrow>
     prod_molQty (productResults cs ps ! i)
       = (precursorMatrix cs (ps ! i) * effectiveMW (ps ! i) * productMoles (ps ! i)) / 1000"
  by (simp add: productResults_def productResult_def)

lemma productComponents_mw:
  "i < length ps \<Longrightarrow>
     mw (productComponents cs ps ! i)
       = (case gf (ps ! i) of Some g \<Rightarrow> prod_mw (ps ! i) * g | None \<Rightarrow> prod_mw (ps ! i))
     \<and> formula (productComponents cs ps ! i) = prod_formula (ps ! i)"
  by (simp add: productComponents_def productComponent_def)

text \<open>
  Claim C3, as the code has it. In the product view each product's raw quantity is
  \<open>precursorMatrix * w * productMoles / 1000\<close>, where \<open>w\<close> is \<open>mw * gf\<close> when the product has a
  factor and both mole counts are positive, and \<open>mw\<close> otherwise (no factor, or a mole count
  that is not positive); \<open>productComponents\<close> uses \<open>mw * gf\<close> whenever there is a factor and
  \<open>mw\<close> when there is none. The claim as stated fails for the view that gives the
  precursors the products' factors: a component whose formula has an available factor is
  not given its own weight times the factor. Its weight is the molecular weight of the
  matched product, or its own weight when the product's weight is 0; its factor is the
  product's factor, or 1 when that factor is 0 (both by \<open>||\<close>); and its displayed weight
  and raw quantity are \<open>productMW\<close> and \<open>matrix * productMW / 1000\<close>. A component without an
  available factor keeps its weight with factor 1 and its raw quantity. The lists keep
  their lengths and their order.
\<close>

theorem product_and_gf_views:
  "precursorGfMap cs ps f = Option.bind (gfProduct cs ps f) infoOf
   \<and> length (productResults cs ps) = length ps
   \<and> length (productComponents cs ps) = length ps
   \<and> length (componentsWithGF cs ps) = length cs
   \<and> length (gfResults w cs ps) = length cs
   \<and> (\<forall>i < length ps.
        prod_molQty (productResults cs ps ! i)
          = (precursorMatrix cs (ps ! i) * effectiveMW (ps ! i) * productMoles (ps ! i)) / 1000
        \<and> (\<forall>g. gf (ps ! i) = Some g \<and> 0 < productMoles (ps ! i) \<and> 0 < precursorMoles (ps ! i)
              \<longrightarrow> effectiveMW (ps ! i) = prod_mw (ps ! i) * g)
        \<and> (gf (ps ! i) = None \<or> productMoles (ps ! i) \<le> 0 \<or> precursorMoles (ps ! i) \<le> 0
              \<longrightarrow> effectiveMW (ps ! i) = prod_mw (ps ! i))
        \<and> (\<forall>g. gf (ps ! i) = Some g \<longrightarrow> mw (productComponents cs ps ! i) = prod_mw (ps ! i) * g)
        \<and> (gf (ps ! i) = None \<longrightarrow> mw (productComponents cs ps ! i) = prod_mw (ps ! i)))
   \<and> (\<forall>j < length cs.
        (gfProduct cs ps (formula (cs ! j)) = None \<longrightarrow>
           molecularWeight_used (componentsWithGF cs ps ! j) = mw (cs ! j)
           \<and> gf_used (componentsWithGF cs ps ! j) = 1
           \<and> gfResults w cs ps ! j = compResults cs ps ! j)
        \<and> (\<forall>p g. gfProduct cs ps (formula (cs ! j)) = Some p \<and> gf p = Some g \<longrightarrow>
           molecularWeight_used (componentsWithGF cs ps ! j)
             = (if prod_mw p = 0 then mw (cs ! j) else prod_mw p)
           \<and> gf_used (componentsWithGF cs ps ! j) = (if g = 0 then 1 else g))
        \<and> (\<forall>p. gfProduct cs ps (formula (cs ! j)) = Some p \<longrightarrow>
           mw (gfResults w cs ps ! j) = prod_mw p
           \<and> molQty (gfResults w cs ps ! j) = (matrix (cs ! j) * prod_mw p) / 1000))"
proof -
  have l: "length (productResults cs ps) = length ps
     \<and> length (productComponents cs ps) = length ps
     \<and> length (componentsWithGF cs ps) = length cs
     \<and> length (gfResults w cs ps) = length cs"
    by (simp add: productResults_def productComponents_def componentsWithGF_def gfResults_def
        compResults_def)
  have a: "\<forall>i < length ps.
        prod_molQty (productResults cs ps ! i)
          = (precursorMatrix cs (ps ! i) * effectiveMW (ps ! i) * productMoles (ps ! i)) / 1000
        \<and> (\<forall>g. gf (ps ! i) = Some g \<and> 0 < productMoles (ps ! i) \<and> 0 < precursorMoles (ps ! i)
              \<longrightarrow> effectiveMW (ps ! i) = prod_mw (ps ! i) * g)
        \<and> (gf (ps ! i) = None \<or> productMoles (ps ! i) \<le> 0 \<or> precursorMoles (ps ! i) \<le> 0
              \<longrightarrow> effectiveMW (ps ! i) = prod_mw (ps ! i))
        \<and> (\<forall>g. gf (ps ! i) = Some g \<longrightarrow> mw (productComponents cs ps ! i) = prod_mw (ps ! i) * g)
        \<and> (gf (ps ! i) = None \<longrightarrow> mw (productComponents cs ps ! i) = prod_mw (ps ! i))"
    by (auto simp: productResults_molQty productComponents_mw effectiveMW_def
        split: option.splits)
  have b: "\<forall>j < length cs.
        (gfProduct cs ps (formula (cs ! j)) = None \<longrightarrow>
           molecularWeight_used (componentsWithGF cs ps ! j) = mw (cs ! j)
           \<and> gf_used (componentsWithGF cs ps ! j) = 1
           \<and> gfResults w cs ps ! j = compResults cs ps ! j)
        \<and> (\<forall>p g. gfProduct cs ps (formula (cs ! j)) = Some p \<and> gf p = Some g \<longrightarrow>
           molecularWeight_used (componentsWithGF cs ps ! j)
             = (if prod_mw p = 0 then mw (cs ! j) else prod_mw p)
           \<and> gf_used (componentsWithGF cs ps ! j) = (if g = 0 then 1 else g))
        \<and> (\<forall>p. gfProduct cs ps (formula (cs ! j)) = Some p \<longrightarrow>
           mw (gfResults w cs ps ! j) = prod_mw p
           \<and> molQty (gfResults w cs ps ! j) = (matrix (cs ! j) * prod_mw p) / 1000)"
    using componentsWithGF_without [of _ cs ps] componentsWithGF_with [of _ cs ps]
      gfResults_without [of _ cs ps w] gfResults_with [of _ cs ps _ w]
    by (simp add: componentsWithGF_with)
  from precursorGfMap_gfProduct [of cs ps f] l a b show ?thesis by blast
qed

theorem product_and_gf_views_witness:
  "(0::nat) < length (products exampleState)
   \<and> gf (products exampleState ! 0) = Some (69619 / 123664)
   \<and> (0::real) < productMoles (products exampleState ! 0)
   \<and> (0::real) < precursorMoles (products exampleState ! 0)
   \<and> effectiveMW (products exampleState ! 0) = (69619 / 1000) * (69619 / 123664)
   \<and> mw (productComponents (components exampleState) (products exampleState) ! 0)
       = (69619 / 1000) * (69619 / 123664)
   \<and> (1::nat) < length (products exampleState)
   \<and> gf (products exampleState ! 1) = None
   \<and> effectiveMW (products exampleState ! 1) = 0
   \<and> (0::nat) < length (components exampleState)
   \<and> gfProduct (components exampleState) (products exampleState) ''CaO'' = None
   \<and> gf_used (componentsWithGF (components exampleState) (products exampleState) ! 0) = 1
   \<and> gfResults [] (components exampleState) (products exampleState) ! 0
       = compResults (components exampleState) (products exampleState) ! 0
   \<and> (2::nat) < length (components exampleState)
   \<and> gfProduct (components exampleState) (products exampleState) ''H3BO3''
       = Some (products exampleState ! 0)
   \<and> molecularWeight_used (componentsWithGF (components exampleState) (products exampleState) ! 2)
       = 69619 / 1000
   \<and> gf_used (componentsWithGF (components exampleState) (products exampleState) ! 2)
       = 69619 / 123664
   \<and> molQty (gfResults [] (components exampleState) (products exampleState) ! 2)
       = (60 * (69619 / 1000)) / 1000
   \<and> gf (products zeroMolesState ! 0) = Some 0
   \<and> productMoles (products zeroMolesState ! 0) \<le> 0
   \<and> effectiveMW (products zeroMolesState ! 0) = 69619 / 1000
   \<and> gfProduct (components zeroMolesState) (products zeroMolesState) ''H3BO3''
       = Some (products zeroMolesState ! 0)
   \<and> molecularWeight_used (componentsWithGF (components zeroMolesState) (products zeroMolesState) ! 2)
       = 69619 / 1000
   \<and> gf_used (componentsWithGF (components zeroMolesState) (products zeroMolesState) ! 2) = 1
   \<and> gf (products zeroWeightState ! 0) = Some 0
   \<and> prod_mw (products zeroWeightState ! 0) = 0
   \<and> gfProduct (components zeroWeightState) (products zeroWeightState) ''H3BO3''
       = Some (products zeroWeightState ! 0)
   \<and> molecularWeight_used (componentsWithGF (components zeroWeightState) (products zeroWeightState) ! 2)
       = 61832 / 1000
   \<and> gf_used (componentsWithGF (components zeroWeightState) (products zeroWeightState) ! 2) = 1"
proof -
  let ?cs = "components exampleState" and ?ps = "products exampleState"
  let ?zs = "products zeroMolesState" and ?ws = "products zeroWeightState"
  note v = product_and_gf_views [of ?cs ?ps "''H3BO3''" "[]"]
  note prods = v [THEN conjunct2, THEN conjunct2, THEN conjunct2, THEN conjunct2,
      THEN conjunct2, THEN conjunct1, rule_format]
  note comps = v [THEN conjunct2, THEN conjunct2, THEN conjunct2, THEN conjunct2,
      THEN conjunct2, THEN conjunct2, rule_format]
  note vz = product_and_gf_views [of ?cs ?zs "''H3BO3''" "[]"]
  note zprods = vz [THEN conjunct2, THEN conjunct2, THEN conjunct2, THEN conjunct2,
      THEN conjunct2, THEN conjunct1, rule_format]
  note zcomps = vz [THEN conjunct2, THEN conjunct2, THEN conjunct2, THEN conjunct2,
      THEN conjunct2, THEN conjunct2, rule_format]
  note vw = product_and_gf_views [of ?cs ?ws "''H3BO3''" "[]"]
  note wcomps = vw [THEN conjunct2, THEN conjunct2, THEN conjunct2, THEN conjunct2,
      THEN conjunct2, THEN conjunct2, rule_format]
  have lp: "length ?ps = 2" and lc: "length ?cs = 3" and lz: "length ?zs = 2"
    by (simp_all add: exampleState_products exampleState_components zeroMolesState_products)
  have p0: "gf (?ps ! 0) = Some (69619 / 123664)" "productMoles (?ps ! 0) = 1"
    "precursorMoles (?ps ! 0) = 2" "prod_mw (?ps ! 0) = 69619 / 1000"
    by (simp_all add: exampleState_products)
  have p1: "gf (?ps ! 1) = None" "prod_mw (?ps ! 1) = 0"
    by (simp_all add: exampleState_products)
  have z0: "gf (?zs ! 0) = Some 0" "productMoles (?zs ! 0) = 0" "prod_mw (?zs ! 0) = 69619 / 1000"
    by (simp_all add: zeroMolesState_products)
  have w0: "gf (?ws ! 0) = Some 0" "prod_mw (?ws ! 0) = 0"
    by (simp_all add: zeroWeightState_products)
  have c: "formula (?cs ! 0) = ''CaO''" "formula (?cs ! 2) = ''H3BO3''" "matrix (?cs ! 2) = 60"
    "mw (?cs ! 2) = 61832 / 1000"
    by (simp_all add: exampleState_components)
  have i0: "0 < length ?ps" and i1: "1 < length ?ps" using lp by simp_all
  have k0: "0 < length ?zs" using lz by simp
  have j0: "0 < length ?cs" and j2: "2 < length ?cs" using lc by simp_all
  have pos: "0 < productMoles (?ps ! 0)" "0 < precursorMoles (?ps ! 0)"
    using p0 by simp_all
  have a0: "effectiveMW (?ps ! 0) = prod_mw (?ps ! 0) * (69619 / 123664)"
    using prods [OF i0] p0(1) pos by blast
  have b0: "mw (productComponents ?cs ?ps ! 0) = prod_mw (?ps ! 0) * (69619 / 123664)"
    using prods [OF i0] p0(1) by blast
  have a1: "effectiveMW (?ps ! 1) = prod_mw (?ps ! 1)"
    using prods [OF i1] p1(1) by blast
  have zle: "productMoles (?zs ! 0) \<le> 0" using z0 by simp
  have az: "effectiveMW (?zs ! 0) = prod_mw (?zs ! 0)"
    using zprods [OF k0] zle by blast
  have n0: "gfProduct ?cs ?ps (formula (?cs ! 0)) = None"
    unfolding c by (rule exampleState_gfProduct)
  have s2: "gfProduct ?cs ?ps (formula (?cs ! 2)) = Some (?ps ! 0)"
    unfolding c by (rule exampleState_gfProduct)
  have sz: "gfProduct ?cs ?zs (formula (?cs ! 2)) = Some (?zs ! 0)"
    unfolding c using zeroMolesState_gfProduct by (simp add: zeroMolesState_components)
  have sw: "gfProduct ?cs ?ws (formula (?cs ! 2)) = Some (?ws ! 0)"
    unfolding c using zeroWeightState_gfProduct by (simp add: zeroWeightState_components)
  have c0: "gf_used (componentsWithGF ?cs ?ps ! 0) = 1"
    and d0: "gfResults [] ?cs ?ps ! 0 = compResults ?cs ?ps ! 0"
    using comps [OF j0] n0 by blast+
  have e2: "molecularWeight_used (componentsWithGF ?cs ?ps ! 2)
        = (if prod_mw (?ps ! 0) = 0 then mw (?cs ! 2) else prod_mw (?ps ! 0))
      \<and> gf_used (componentsWithGF ?cs ?ps ! 2)
        = (if (69619 / 123664 :: real) = 0 then 1 else 69619 / 123664)"
    using comps [OF j2] s2 p0(1) by blast
  have d2: "molQty (gfResults [] ?cs ?ps ! 2) = (matrix (?cs ! 2) * prod_mw (?ps ! 0)) / 1000"
    using comps [OF j2] s2 by blast
  have ez: "molecularWeight_used (componentsWithGF ?cs ?zs ! 2)
        = (if prod_mw (?zs ! 0) = 0 then mw (?cs ! 2) else prod_mw (?zs ! 0))
      \<and> gf_used (componentsWithGF ?cs ?zs ! 2) = (if (0 :: real) = 0 then 1 else 0)"
    using zcomps [OF j2] sz z0(1) by blast
  have ew: "molecularWeight_used (componentsWithGF ?cs ?ws ! 2)
        = (if prod_mw (?ws ! 0) = 0 then mw (?cs ! 2) else prod_mw (?ws ! 0))
      \<and> gf_used (componentsWithGF ?cs ?ws ! 2) = (if (0 :: real) = 0 then 1 else 0)"
    using wcomps [OF j2] sw w0(1) by blast
  from a0 b0 a1 az c0 d0 e2 d2 ez ew lp lc p0 p1 z0 w0 c exampleState_gfProduct
    zeroMolesState_gfProduct zeroWeightState_gfProduct
  show ?thesis
    by (simp add: zeroMolesState_components zeroWeightState_components)
qed

theorem gf_view_weight_counterexample:
  "mw (components exampleState ! 2) = 61832 / 1000
   \<and> gfProduct (components exampleState) (products exampleState) ''H3BO3''
       = Some (products exampleState ! 0)
   \<and> gf (products exampleState ! 0) = Some (69619 / 123664)
   \<and> molecularWeight_used (componentsWithGF (components exampleState) (products exampleState) ! 2)
       = 69619 / 1000
   \<and> gf_used (componentsWithGF (components exampleState) (products exampleState) ! 2)
       = 69619 / 123664
   \<and> mw (gfResults [] (components exampleState) (products exampleState) ! 2) = 69619 / 1000
   \<and> molQty (gfResults [] (components exampleState) (products exampleState) ! 2)
       = (60 * (69619 / 1000)) / 1000
   \<and> (69619 / 1000) * (69619 / 123664) \<noteq> (61832 / 1000) * (69619 / 123664 :: real)
   \<and> (69619 / 1000) \<noteq> (61832 / 1000) * (69619 / 123664 :: real)"
proof -
  let ?cs = "components exampleState" and ?ps = "products exampleState"
  have j: "2 < length ?cs" by (simp add: exampleState_components)
  have f: "formula (?cs ! 2) = ''H3BO3''" by (simp add: exampleState_components)
  have p: "gfProduct ?cs ?ps (formula (?cs ! 2)) = Some (?ps ! 0)"
    unfolding f by (rule exampleState_gfProduct)
  have g: "gf (?ps ! 0) = Some (69619 / 123664)" by (simp add: exampleState_products)
  have w: "prod_mw (?ps ! 0) = 69619 / 1000" by (simp add: exampleState_products)
  have m: "mw (?cs ! 2) = 61832 / 1000" "matrix (?cs ! 2) = 60"
    by (simp_all add: exampleState_components)
  from componentsWithGF_with [OF j p g] gfResults_with [OF j p, of "[]"] p g w m f
  show ?thesis by simp
qed

subsection \<open>Composition data\<close>

lemma js_map_set_fresh: "k \<notin> fst ` set m \<Longrightarrow> js_map_set k v m = m @ [(k, v)]"
  by (simp add: js_map_set_def)

lemma fold_compound_distinct:
  "distinct (map formula (filter retained cs)) \<Longrightarrow>
   fst ` set m \<inter> formula ` set (filter retained cs) = {} \<Longrightarrow>
   fold (\<lambda>c m. if \<not> retained c then m else js_map_set (formula c) (matrix c) m) cs m
     = m @ map (\<lambda>c. (formula c, matrix c)) (filter retained cs)"
proof (induction cs arbitrary: m)
  case Nil
  then show ?case by simp
next
  case (Cons c cs)
  show ?case
  proof (cases "retained c")
    case False
    with Cons show ?thesis by simp
  next
    case True
    with Cons.prems have fresh: "formula c \<notin> fst ` set m" by auto
    have d: "distinct (map formula (filter retained cs))"
      using Cons.prems True by simp
    have disj: "fst ` set (m @ [(formula c, matrix c)]) \<inter> formula ` set (filter retained cs) = {}"
      using Cons.prems True by auto
    show ?thesis
      using True Cons.IH [OF d disj] by (simp add: js_map_set_fresh [OF fresh])
  qed
qed

lemma compoundMap_distinct:
  "distinct (map formula (filter retained cs)) \<Longrightarrow>
   compoundMap cs = map (\<lambda>c. (formula c, matrix c)) (filter retained cs)"
  using fold_compound_distinct [of cs "[]"] by (simp add: compoundMap_def)

lemma js_rem_abs: "\<bar>js_rem a b\<bar> = \<bar>a\<bar> mod \<bar>b\<bar>"
proof -
  have "0 \<le> \<bar>a\<bar> mod \<bar>b\<bar>"
    by (cases "b = 0") simp_all
  then show ?thesis
    by (cases "a = 0") (simp_all add: js_rem_def abs_mult abs_sgn_eq)
qed

lemma hue_of_eq: "hue_of f = nat (\<bar>hashCode f\<bar> mod 360)"
  by (simp add: hue_of_def js_rem_abs)

lemma color_generate:
  "e \<in> set (generateCompositionData cs) \<Longrightarrow> color e = hsl (hue_of (element e))"
  by (auto simp: generateCompositionData_def Let_def compositionEntry_def)

text \<open>
  Claim C7, as the code has it. The claim as stated (one entry per retained component)
  fails when two retained components carry the same formula: the \<open>Map\<close> holds one entry
  per formula. Where the retained components have pairwise distinct formulas, the output
  is exactly one entry per retained component, in input order, and each percentage is
  \<open>matrix / sum * 100\<close> with the sum over the retained components; an entry is retained
  when its formula is non-empty and its matrix value is non-zero.
\<close>

theorem generateCompositionData_distinct:
  assumes "distinct (map formula (filter retained cs))"
  shows "generateCompositionData cs =
     map (\<lambda>c. \<lparr>element = formula c,
               percentage = map_option (\<lambda>q. q * 100)
                  (js_div (matrix c) (sum_list (map matrix (filter retained cs)))),
               color = hsl (hue_of (formula c))\<rparr>)
       (filter retained cs)
    \<and> (sum_list (map matrix (filter retained cs)) \<noteq> 0 \<longrightarrow>
         map percentage (generateCompositionData cs) =
         map (\<lambda>c. Some (matrix c / sum_list (map matrix (filter retained cs)) * 100))
           (filter retained cs))
    \<and> (\<forall>c. retained c \<longleftrightarrow> formula c \<noteq> [] \<and> matrix c \<noteq> 0)"
  using compoundMap_distinct [OF assms]
  by (simp add: generateCompositionData_def Let_def compositionEntry_def comp_def retained_def
      js_div_def)

theorem generateCompositionData_distinct_witness:
  "distinct (map formula (filter retained initialComponents))
   \<and> sum_list (map matrix (filter retained initialComponents)) = 100
   \<and> generateCompositionData initialComponents =
       [\<lparr>element = ''CaO'', percentage = Some 30, color = hsl (hue_of ''CaO'')\<rparr>,
        \<lparr>element = ''La2O3'', percentage = Some 10, color = hsl (hue_of ''La2O3'')\<rparr>,
        \<lparr>element = ''H3BO3'', percentage = Some 60, color = hsl (hue_of ''H3BO3'')\<rparr>]"
proof -
  have f: "filter retained initialComponents = initialComponents"
    by (simp add: initialComponents_def retained_def)
  have d: "distinct (map formula (filter retained initialComponents))"
    unfolding f by (simp add: initialComponents_def)
  have t: "sum_list (map matrix (filter retained initialComponents)) = 100"
    unfolding f by (simp add: initialComponents_def)
  from generateCompositionData_distinct [OF d] d t show ?thesis
    unfolding f by (simp add: initialComponents_def js_div_def)
qed

theorem generateCompositionData_duplicate_counterexample:
  "length (filter retained
      [\<lparr>formula = ''CaO'', matrix = 30, mw = 0\<rparr>,
       \<lparr>formula = ''CaO'', matrix = 20, mw = 0\<rparr>,
       \<lparr>formula = ''H3BO3'', matrix = 50, mw = 0\<rparr>]) = 3
   \<and> map element (generateCompositionData
      [\<lparr>formula = ''CaO'', matrix = 30, mw = 0\<rparr>,
       \<lparr>formula = ''CaO'', matrix = 20, mw = 0\<rparr>,
       \<lparr>formula = ''H3BO3'', matrix = 50, mw = 0\<rparr>]) = [''CaO'', ''H3BO3'']
   \<and> map percentage (generateCompositionData
      [\<lparr>formula = ''CaO'', matrix = 30, mw = 0\<rparr>,
       \<lparr>formula = ''CaO'', matrix = 20, mw = 0\<rparr>,
       \<lparr>formula = ''H3BO3'', matrix = 50, mw = 0\<rparr>]) = [Some (200 / 7), Some (500 / 7)]"
  by (simp add: generateCompositionData_def compoundMap_def js_map_set_def retained_def
      compositionEntry_def Let_def js_div_def)

text \<open>
  Claim C8. The colour of an entry is a function of its formula alone: two entries with
  the same formula, in the outputs for any two component lists, have the same colour,
  which is \<open>hsl(h, 70%, 60%)\<close> with \<open>h = |hashCode formula| mod 360\<close>.
\<close>

theorem color_deterministic:
  assumes "e1 \<in> set (generateCompositionData cs1)"
    and "e2 \<in> set (generateCompositionData cs2)"
    and "element e1 = element e2"
  shows "color e1 = color e2
    \<and> color e1 = ''hsl('' @ decimal (nat (\<bar>hashCode (element e1)\<bar> mod 360)) @ '', 70%, 60%)''"
  using assms by (simp add: color_generate hsl_def hue_of_eq)

theorem color_deterministic_witness:
  "\<lparr>element = ''H3BO3'', percentage = Some 60, color = ''hsl(259, 70%, 60%)''\<rparr>
      \<in> set (generateCompositionData initialComponents)
   \<and> \<lparr>element = ''H3BO3'', percentage = Some 100, color = ''hsl(259, 70%, 60%)''\<rparr>
      \<in> set (generateCompositionData [\<lparr>formula = ''H3BO3'', matrix = 25, mw = 0\<rparr>])
   \<and> hashCode ''H3BO3'' = 68078779"
proof -
  let ?e1 = "\<lparr>element = ''H3BO3'', percentage = Some 60, color = ''hsl(259, 70%, 60%)''\<rparr>"
  let ?e2 = "\<lparr>element = ''H3BO3'', percentage = Some 100, color = ''hsl(259, 70%, 60%)''\<rparr>"
  have h: "hsl (hue_of ''H3BO3'') = ''hsl(259, 70%, 60%)''"
    by (simp add: hsl_def hue_of_def hashCode_def hashStep_def toInt32_def js_rem_def
        decimal.simps digit_char_def)
  have m1: "?e1 \<in> set (generateCompositionData initialComponents)"
    by (simp add: generateCompositionData_def compoundMap_def js_map_set_def retained_def
        compositionEntry_def Let_def initialComponents_def js_div_def h)
  have m2: "?e2 \<in> set (generateCompositionData [\<lparr>formula = ''H3BO3'', matrix = 25, mw = 0\<rparr>])"
    by (simp add: generateCompositionData_def compoundMap_def js_map_set_def retained_def
        compositionEntry_def Let_def js_div_def h)
  have hc: "hashCode ''H3BO3'' = 68078779"
    by (simp add: hashCode_def hashStep_def toInt32_def)
  from color_deterministic [OF m1 m2] m1 m2 hc show ?thesis by simp
qed

end
